(* ===== verification/Prelude.thy ===== *)
theory Prelude
  imports Main "HOL-Library.Word" "HOL-Library.AList" "HOL-Library.Multiset"
begin

text \<open>
  Shared vocabulary of the Recopix development (\<open>src/script.js\<close>).
  \<^item> Colour channels come from a \<open>Uint8ClampedArray\<close>, so they are \<open>8 word\<close>s; an RGB
    triple is a triple of them.
  \<^item> A JavaScript object with string keys is an association list: \<open>Object.entries\<close>
    returns its pairs in insertion order, assignment to an existing key keeps its position
    and assignment to a new key appends it (\<open>AList.update\<close>), reading a missing key gives
    \<open>undefined\<close> (\<open>None\<close>).
  \<^item> A variable initialised to \<open>Infinity\<close> and lowered by \<open>d < m\<close> is an
    \<open>option\<close> with \<open>None\<close> for \<open>Infinity\<close>; \<open>below\<close> is the comparison.
  The generic list and association-list lemmas the component theories share are collected
  here, in the named collection \<open>js_object_simps\<close> and as simp rules.
\<close>

named_theorems js_object_simps "facts about JavaScript objects as association lists"

type_synonym u8 = "8 word"
type_synonym rgb = "u8 \<times> u8 \<times> u8"
type_synonym 'v js_object = "(string \<times> 'v) list"

abbreviation black :: rgb where
  "black \<equiv> (0, 0, 0)"

definition obj_get :: "'v js_object \<Rightarrow> string \<Rightarrow> 'v option" where
  "obj_get obj k = map_of obj k"

definition obj_set :: "string \<Rightarrow> 'v \<Rightarrow> 'v js_object \<Rightarrow> 'v js_object" where
  "obj_set k v obj = AList.update k v obj"

text \<open>\<open>Object.fromEntries\<close>: the pairs are assigned in order, so a later duplicate key
  overwrites the value of the earlier one and keeps its position.\<close>

definition from_entries :: "(string \<times> 'v) list \<Rightarrow> 'v js_object" where
  "from_entries kvs = fold (\<lambda>(k, v) obj. obj_set k v obj) kvs []"

text \<open>The comparison \<open>d < minDistance\<close> with \<open>minDistance\<close> possibly \<open>Infinity\<close>.\<close>

fun below :: "'a::linorder \<Rightarrow> 'a option \<Rightarrow> bool" where
  "below d None = True"
| "below d (Some m) = (d < m)"

lemma below_Some_trans: "below x (Some y) \<Longrightarrow> below y m \<Longrightarrow> below x m"
  by (cases m) auto

section \<open>Association lists as JavaScript objects\<close>

lemma obj_get_set [js_object_simps]:
  "obj_get (obj_set k v obj) k' = (if k' = k then Some v else obj_get obj k')"
  by (simp add: obj_get_def obj_set_def update_conv)

lemma keys_obj_set [js_object_simps]:
  "k \<in> fst ` set obj \<Longrightarrow> map fst (obj_set k v obj) = map fst obj"
  by (simp add: obj_set_def update_keys)

lemma obj_get_None_iff [js_object_simps]:
  "obj_get obj k = None \<longleftrightarrow> k \<notin> fst ` set obj"
  by (simp add: obj_get_def map_of_eq_None_iff)

lemma obj_get_Cons [js_object_simps]:
  "obj_get ((k, v) # obj) k' = (if k' = k then Some v else obj_get obj k')"
  by (simp add: obj_get_def)

lemma obj_get_Nil [js_object_simps]: "obj_get [] k = None"
  by (simp add: obj_get_def)

lemma obj_get_keys:
  "distinct (map fst xs) \<Longrightarrow> map (\<lambda>k. the (obj_get xs k)) (map fst xs) = map snd xs"
proof (induction xs)
  case (Cons x xs)
  obtain k v where x: "x = (k, v)" by (cases x)
  have "map (\<lambda>k'. the (obj_get ((k, v) # xs) k')) (map fst xs) = map (\<lambda>k'. the (obj_get xs k')) (map fst xs)"
    using Cons.prems x by (intro map_cong) (auto simp: obj_get_Cons)
  with Cons x show ?case by (simp add: obj_get_Cons)
qed simp

lemma keys_fold_obj_set:
  "fst ` set (fold (\<lambda>(k, v) obj. obj_set k v obj) kvs acc) = fst ` set kvs \<union> fst ` set acc"
proof (induction kvs arbitrary: acc)
  case (Cons kv kvs)
  obtain k v where kv: "kv = (k, v)" by (cases kv)
  show ?case using Cons.IH [of "obj_set k v acc"] by (simp add: kv obj_set_def dom_update)
qed simp

lemma fold_obj_set_distinct:
  assumes "distinct (map fst kvs)" and "set (map fst kvs) \<inter> fst ` set acc = {}"
  shows "fold (\<lambda>(k, v) obj. obj_set k v obj) kvs acc = acc @ kvs"
  using assms
proof (induction kvs arbitrary: acc)
  case Nil
  then show ?case by simp
next
  case (Cons kv kvs)
  obtain k v where kv: "kv = (k, v)" by (cases kv)
  from Cons.prems kv have upd: "obj_set k v acc = acc @ [(k, v)]"
    by (induction acc) (auto simp: obj_set_def)
  from Cons.prems kv have "set (map fst kvs) \<inter> fst ` set (acc @ [(k, v)]) = {}"
    by auto
  with Cons.prems Cons.IH [of "acc @ [(k, v)]"] kv upd show ?case
    by simp
qed

lemma from_entries_distinct [js_object_simps]:
  "distinct (map fst kvs) \<Longrightarrow> from_entries kvs = kvs"
  using fold_obj_set_distinct [of kvs "[]"] by (simp add: from_entries_def)

section \<open>Stable sorting by a key\<close>

lemma insort_key_cong_set:
  "(\<And>y. y \<in> insert x (set ys) \<Longrightarrow> f y = g y) \<Longrightarrow> insort_key f x ys = insort_key g x ys"
  by (induction ys) auto

lemma sort_key_cong_set:
  "(\<And>y. y \<in> set xs \<Longrightarrow> f y = g y) \<Longrightarrow> sort_key f xs = sort_key g xs"
proof (induction xs)
  case Nil
  then show ?case by simp
next
  case (Cons x xs)
  then have "insort_key f x (sort_key f xs) = insort_key g x (sort_key f xs)"
    by (intro insort_key_cong_set) auto
  with Cons show ?case by simp
qed

lemma sorted_wrt_insort_key_lex:
  assumes "sorted_wrt (\<lambda>x y. f x < f y \<or> f x = f y \<and> g x < g y) ys"
    and "\<forall>y \<in> set ys. g x < g y"
  shows "sorted_wrt (\<lambda>x y. f x < f y \<or> f x = f y \<and> g x < g y) (insort_key f x ys)"
  using assms
proof (induction ys)
  case Nil
  then show ?case by simp
next
  case (Cons y ys)
  show ?case
  proof (cases "f x \<le> f y")
    case True
    with Cons.prems show ?thesis by (fastforce simp: set_insort_key)
  next
    case False
    with Cons.prems Cons.IH show ?thesis by (auto simp: set_insort_key)
  qed
qed

lemma sort_key_lex:
  "sorted_wrt (\<lambda>x y. g x < g y) xs \<Longrightarrow>
     sorted_wrt (\<lambda>x y. f x < f y \<or> f x = f y \<and> g x < g y) (sort_key f xs)"
  by (induction xs) (simp_all add: sorted_wrt_insort_key_lex)

lemma sorted_wrt_upt_less: "sorted_wrt (\<lambda>x y. x < y) [m..<n]"
  by (simp add: sorted_wrt_upt)

section \<open>List updates and sums\<close>

lemma count_list_update_fresh:
  "i < length xs \<Longrightarrow> xs ! i \<noteq> k \<Longrightarrow>
     count_list (xs[i := v]) k = count_list xs k + (if v = k then 1 else 0)"
proof (induction xs arbitrary: i)
  case Nil
  then show ?case by simp
next
  case (Cons x xs)
  then show ?case by (cases i) auto
qed

lemma sum_obj_set:
  "distinct (map fst obj) \<Longrightarrow> obj_get obj k = Some v \<Longrightarrow>
     sum_list (map snd (obj_set k v' obj)) = sum_list (map snd obj) - v + (v' :: int)"
  by (induction obj) (auto simp: obj_set_def obj_get_def)

lemma length_filter_update_fresh:
  "i < length xs \<Longrightarrow> \<not> P (xs ! i) \<Longrightarrow> P v \<Longrightarrow>
     length (filter P (xs[i := v])) = Suc (length (filter P xs))"
proof (induction xs arbitrary: i)
  case Nil
  then show ?case by simp
next
  case (Cons x xs)
  then show ?case by (cases i) auto
qed

end
