(* ===== verification/Palette.thy ===== *)
theory Palette
  imports Prelude
begin

text \<open>
  The palette of \<open>src/script.js\<close> (lines 3--27 and 55--58): the object
  \<open>COLOURS_DATA\<close> of named colours, each with an RGB triple and a starting stock count,
  and the two objects derived from it, \<open>ORIGINAL_COUNTS\<close> and \<open>RGB_VALUES\<close>, built with
  \<open>Object.fromEntries\<close> over \<open>Object.entries(COLOURS_DATA)\<close>. The matcher and the
  summary take a palette as a parameter; the program's one palette is
  \<open>COLOURS_DATA\<close>. \<open>palette_wf\<close> is the well-formedness the spec asks of a palette
  (unique names, stock at least 0); the program checks none of it, and the literal
  satisfies it.
\<close>

record colour_data =
  cd_rgb :: rgb
  cd_count :: int

type_synonym palette = "colour_data js_object"

definition TARGET_SIZE :: nat where
  "TARGET_SIZE = 48"

definition COLOURS_DATA :: palette where
  "COLOURS_DATA = [
    (''Black'', \<lparr>cd_rgb = (27, 42, 52), cd_count = 698\<rparr>),
    (''Bright Light Blue'', \<lparr>cd_rgb = (175, 221, 255), cd_count = 57\<rparr>),
    (''Bright Light Orange'', \<lparr>cd_rgb = (255, 176, 100), cd_count = 65\<rparr>),
    (''Dark Blue'', \<lparr>cd_rgb = (0, 16, 176), cd_count = 121\<rparr>),
    (''Dark Bluish Gray'', \<lparr>cd_rgb = (99, 95, 98), cd_count = 141\<rparr>),
    (''Dark Brown'', \<lparr>cd_rgb = (53, 33, 0), cd_count = 554\<rparr>),
    (''Dark Orange'', \<lparr>cd_rgb = (176, 96, 16), cd_count = 85\<rparr>),
    (''Dark Tan'', \<lparr>cd_rgb = (149, 138, 115), cd_count = 137\<rparr>),
    (''Light Bluish Gray'', \<lparr>cd_rgb = (183, 195, 205), cd_count = 51\<rparr>),
    (''Medium Nougat'', \<lparr>cd_rgb = (170, 125, 85), cd_count = 29\<rparr>),
    (''Orange'', \<lparr>cd_rgb = (255, 88, 0), cd_count = 74\<rparr>),
    (''Reddish Brown'', \<lparr>cd_rgb = (105, 64, 40), cd_count = 250\<rparr>),
    (''Sand Blue'', \<lparr>cd_rgb = (116, 134, 157), cd_count = 52\<rparr>),
    (''Tan'', \<lparr>cd_rgb = (222, 198, 156), cd_count = 283\<rparr>),
    (''White'', \<lparr>cd_rgb = (244, 244, 244), cd_count = 149\<rparr>)]"

text \<open>\<open>ORIGINAL_COUNTS\<close> and \<open>RGB_VALUES\<close> for a given palette.\<close>

definition original_counts :: "palette \<Rightarrow> int js_object" where
  "original_counts pal = from_entries (map (\<lambda>(name, data). (name, cd_count data)) pal)"

definition rgb_values :: "palette \<Rightarrow> rgb js_object" where
  "rgb_values pal = from_entries (map (\<lambda>(name, data). (name, cd_rgb data)) pal)"

definition palette_wf :: "palette \<Rightarrow> bool" where
  "palette_wf pal \<longleftrightarrow> distinct (map fst pal) \<and> list_all (\<lambda>(_, data). 0 \<le> cd_count data) pal"

text \<open>Every name is a truthy string: \<open>if (bestName)\<close> treats \<open>''''\<close> as no match.\<close>

definition names_truthy :: "palette \<Rightarrow> bool" where
  "names_truthy pal \<longleftrightarrow> list_all (\<lambda>(name, _). name \<noteq> []) pal"

definition total_stock :: "palette \<Rightarrow> int" where
  "total_stock pal = sum_list (map (\<lambda>(_, data). cd_count data) pal)"

text \<open>The palette of the worked example in the spec: one red and one blue, one of each.\<close>

definition example_palette :: palette where
  "example_palette = [(''Red'', \<lparr>cd_rgb = (255, 0, 0), cd_count = 1\<rparr>),
                      (''Blue'', \<lparr>cd_rgb = (0, 0, 255), cd_count = 1\<rparr>)]"

section \<open>Palette lemmas\<close>

lemma original_counts_wf [simp]:
  "palette_wf pal \<Longrightarrow> original_counts pal = map (\<lambda>(name, data). (name, cd_count data)) pal"
  unfolding original_counts_def palette_wf_def
  by (rule from_entries_distinct) (simp add: case_prod_unfold comp_def)

lemma rgb_values_wf [simp]:
  "palette_wf pal \<Longrightarrow> rgb_values pal = map (\<lambda>(name, data). (name, cd_rgb data)) pal"
  unfolding rgb_values_def palette_wf_def
  by (rule from_entries_distinct) (simp add: case_prod_unfold comp_def)

lemma keys_original_counts [simp]:
  "palette_wf pal \<Longrightarrow> map fst (original_counts pal) = map fst pal"
  by (simp add: case_prod_unfold)

lemma keys_rgb_values [simp]:
  "palette_wf pal \<Longrightarrow> map fst (rgb_values pal) = map fst pal"
  by (simp add: case_prod_unfold)

lemma COLOURS_DATA_wf: "palette_wf COLOURS_DATA"
  by (simp add: palette_wf_def COLOURS_DATA_def)

lemma COLOURS_DATA_truthy: "names_truthy COLOURS_DATA"
  by (simp add: names_truthy_def COLOURS_DATA_def)

lemma keys_rgb_values_set:
  "palette_wf pal \<Longrightarrow> fst ` set (rgb_values pal) = fst ` set pal"
  by (force simp: case_prod_unfold)

lemma obj_get_rgb_values:
  "palette_wf pal \<Longrightarrow> name \<in> fst ` set pal \<Longrightarrow> \<exists>q. obj_get (rgb_values pal) name = Some q"
  by (metis keys_rgb_values_set obj_get_None_iff not_None_eq)

lemma obj_get_original_counts:
  assumes "palette_wf pal" and "(k, data) \<in> set pal"
  shows "obj_get (original_counts pal) k = Some (cd_count data)"
proof -
  have "distinct (map fst (map (\<lambda>(name, data). (name, cd_count data)) pal))"
    using assms(1) by (simp add: palette_wf_def case_prod_unfold comp_def)
  moreover have "(k, cd_count data) \<in> set (map (\<lambda>(name, data). (name, cd_count data)) pal)"
    using assms(2) by force
  ultimately show ?thesis
    using assms(1) by (simp add: obj_get_def map_of_is_SomeI)
qed

lemma keys_rgb_values_all: "fst ` set (rgb_values pal) = fst ` set pal"
  unfolding rgb_values_def from_entries_def keys_fold_obj_set by (simp add: image_image case_prod_unfold)

end
