(* ===== verification/Colour.thy ===== *)
theory Colour
  imports Complex_Main Prelude
begin

text \<open>
  The colour helpers of \<open>src/script.js\<close>: \<open>rgbDistance\<close> (lines 78--85), the
  Euclidean distance of two RGB triples with \<open>Math.sqrt\<close>, and \<open>hexToRgb\<close> (lines
  63--75), which reads the \<open>#rgb\<close> or \<open>#rrggbb\<close> string of the colour picker with
  \<open>parseInt\<close>. The matcher compares distances only; \<open>rgb_dist_sq\<close> is the squared
  distance on integers it is implemented with, and the lemmas below show that comparing
  squared distances is comparing \<open>rgbDistance\<close>, that the squared distance is at most
  \<open>3 * 255\<^sup>2\<close>, and that two different distances of the 8-bit cube differ by more than
  \<open>1/1000\<close>, far above the rounding error of a double \<open>Math.sqrt\<close>. For
  \<open>hexToRgb\<close>, \<open>parseInt\<close> of a \<open>"0x"\<close>-prefixed string is modelled exactly: the
  longest prefix of hexadecimal digits, \<open>NaN\<close> (\<open>None\<close>) if there is none.
\<close>

section \<open>Distance\<close>

definition chan :: "u8 \<Rightarrow> int" where
  "chan w = uint w"

definition rgb_dist_sq :: "rgb \<Rightarrow> rgb \<Rightarrow> nat" where
  "rgb_dist_sq c1 c2 =
     (case (c1, c2) of ((r1, g1, b1), (r2, g2, b2)) \<Rightarrow>
        nat ((chan r1 - chan r2)\<^sup>2 + (chan g1 - chan g2)\<^sup>2 + (chan b1 - chan b2)\<^sup>2))"

definition rgbDistance :: "rgb \<Rightarrow> rgb \<Rightarrow> real" where
  "rgbDistance c1 c2 =
     (case (c1, c2) of ((r1, g1, b1), (r2, g2, b2)) \<Rightarrow>
        sqrt ((of_int (chan r1) - of_int (chan r2))\<^sup>2 + (of_int (chan g1) - of_int (chan g2))\<^sup>2
              + (of_int (chan b1) - of_int (chan b2))\<^sup>2))"

section \<open>hexToRgb\<close>

fun hex_digit :: "char \<Rightarrow> nat option" where
  "hex_digit c =
     (let n = of_char c :: nat in
      if 48 \<le> n \<and> n \<le> 57 then Some (n - 48)
      else if 97 \<le> n \<and> n \<le> 102 then Some (n - 87)
      else if 65 \<le> n \<and> n \<le> 70 then Some (n - 55)
      else None)"

fun hex_prefix :: "string \<Rightarrow> nat list" where
  "hex_prefix [] = []"
| "hex_prefix (c # cs) = (case hex_digit c of None \<Rightarrow> [] | Some d \<Rightarrow> d # hex_prefix cs)"

text \<open>\<open>parseInt("0x" + s)\<close>: radix 16, digits up to the first non-digit.\<close>

definition parseInt_0x :: "string \<Rightarrow> int option" where
  "parseInt_0x s =
     (let ds = hex_prefix s in
      if ds = [] then None else Some (int (foldl (\<lambda>acc d. 16 * acc + d) 0 ds)))"

type_synonym js_rgb = "int option \<times> int option \<times> int option"

definition hexToRgb :: "string \<Rightarrow> js_rgb" where
  "hexToRgb hex =
     (if length hex = 4 then
        (parseInt_0x [hex ! 1, hex ! 1], parseInt_0x [hex ! 2, hex ! 2],
         parseInt_0x [hex ! 3, hex ! 3])
      else if length hex = 7 then
        (parseInt_0x [hex ! 1, hex ! 2], parseInt_0x [hex ! 3, hex ! 4],
         parseInt_0x [hex ! 5, hex ! 6])
      else (Some 0, Some 0, Some 0))"

text \<open>The value of an \<open>input type="color"\<close>: \<open>#\<close> and two lowercase digits per channel.\<close>

definition hex_char :: "nat \<Rightarrow> char" where
  "hex_char d = (if d < 10 then char_of (48 + d) else char_of (87 + d))"

definition hex_byte :: "u8 \<Rightarrow> string" where
  "hex_byte w = [hex_char (unat w div 16), hex_char (unat w mod 16)]"

definition hex_colour :: "rgb \<Rightarrow> string" where
  "hex_colour c = (case c of (r, g, b) \<Rightarrow> CHR ''#'' # hex_byte r @ hex_byte g @ hex_byte b)"

section \<open>Distance lemmas\<close>

lemma chan_bounds: "0 \<le> chan w \<and> chan w \<le> 255"
proof -
  have "uint w < 2 ^ LENGTH(8)" by (rule uint_bounded)
  then show ?thesis by (simp add: chan_def)
qed

lemma rgb_dist_sq_int:
  "int (rgb_dist_sq (r1, g1, b1) (r2, g2, b2)) =
     (chan r1 - chan r2)\<^sup>2 + (chan g1 - chan g2)\<^sup>2 + (chan b1 - chan b2)\<^sup>2"
  by (simp add: rgb_dist_sq_def)

lemma rgbDistance_sqrt: "rgbDistance c1 c2 = sqrt (real (rgb_dist_sq c1 c2))"
proof -
  obtain r1 g1 b1 r2 g2 b2 where c: "c1 = (r1, g1, b1)" "c2 = (r2, g2, b2)"
    by (cases c1, cases c2) auto
  have "real (rgb_dist_sq c1 c2) = of_int (int (rgb_dist_sq c1 c2))" by simp
  also have "\<dots> = (of_int (chan r1) - of_int (chan r2))\<^sup>2 + (of_int (chan g1) - of_int (chan g2))\<^sup>2
              + (of_int (chan b1) - of_int (chan b2))\<^sup>2"
    unfolding c rgb_dist_sq_int by simp
  finally show ?thesis by (simp add: rgbDistance_def c)
qed


lemma sq_chan_diff_le: "(chan x - chan y)\<^sup>2 \<le> 65025"
proof -
  have "\<bar>chan x - chan y\<bar> \<le> 255" using chan_bounds [of x] chan_bounds [of y] by arith
  then have "\<bar>chan x - chan y\<bar>\<^sup>2 \<le> 255\<^sup>2" by (rule power_mono) simp
  then show ?thesis by simp
qed

lemma rgb_dist_sq_bound: "rgb_dist_sq a b \<le> 195075"
proof -
  obtain r1 g1 b1 r2 g2 b2 where c: "a = (r1, g1, b1)" "b = (r2, g2, b2)"
    by (cases a, cases b) auto
  have "int (rgb_dist_sq a b) \<le> 195075"
    unfolding c rgb_dist_sq_int
    using sq_chan_diff_le [of r1 r2] sq_chan_diff_le [of g1 g2] sq_chan_diff_le [of b1 b2]
    by linarith
  then show ?thesis by simp
qed

lemma sqrt_below_442: "(x::nat) \<le> 195075 \<Longrightarrow> sqrt (real x) < 442"
proof -
  assume "x \<le> 195075"
  then have "real x < 442\<^sup>2" by simp
  then have "sqrt (real x) < sqrt (442\<^sup>2)" by (simp only: real_sqrt_less_iff)
  then show ?thesis by simp
qed

lemma sqrt_gap:
  fixes x y :: nat
  assumes "x < y" and "y \<le> 195075"
  shows "1 / 1000 < sqrt (real y) - sqrt (real x)"
proof -
  define d where "d = sqrt (real y) - sqrt (real x)"
  define s where "s = sqrt (real y) + sqrt (real x)"
  have "d * s = (sqrt (real y))\<^sup>2 - (sqrt (real x))\<^sup>2"
    unfolding d_def s_def by (simp add: power2_eq_square ring_distribs)
  also have "\<dots> = real y - real x" by simp
  finally have prod: "d * s = real y - real x" .
  from assms(1) have one: "1 \<le> d * s" by (simp add: prod)
  have s_lt: "s < 884"
    using sqrt_below_442 [of x] sqrt_below_442 [of y] assms unfolding s_def by simp
  have d_pos: "0 < d" using assms(1) unfolding d_def by simp
  have "d * s < d * 884" using mult_strict_left_mono [OF s_lt d_pos] .
  with one have "1 < d * 884" by linarith
  then show ?thesis unfolding d_def by simp
qed


section \<open>hexToRgb lemmas\<close>

lemma hex_digit_hex_char: "d < 16 \<Longrightarrow> hex_digit (hex_char d) = Some d"
  by (auto simp: hex_char_def Let_def)

lemma parseInt_0x_two:
  "hi < 16 \<Longrightarrow> lo < 16 \<Longrightarrow> parseInt_0x [hex_char hi, hex_char lo] = Some (int (16 * hi + lo))"
  by (simp add: parseInt_0x_def hex_digit_hex_char del: hex_digit.simps)

lemma parseInt_0x_hex_byte: "parseInt_0x (hex_byte w) = Some (uint w)"
proof -
  have lt: "unat w < 256" using unsigned_less [of w] by simp
  have hi: "unat w div 16 < 16" using lt by linarith
  have lo: "unat w mod 16 < 16" by simp
  have eq: "16 * (unat w div 16) + unat w mod 16 = unat w" by simp
  have "parseInt_0x (hex_byte w) = Some (int (16 * (unat w div 16) + unat w mod 16))"
    unfolding hex_byte_def by (rule parseInt_0x_two [OF hi lo])
  then show ?thesis by (simp only: eq uint_nat)
qed

text \<open>C38: \<open>hexToRgb\<close> reads back every colour the colour picker writes as
  \<open>#rrggbb\<close>.\<close>

theorem hexToRgb_hex_colour:
  "hexToRgb (hex_colour (r, g, b)) = (Some (uint r), Some (uint g), Some (uint b))"
proof -
  obtain r1 r2 where r: "hex_byte r = [r1, r2]" by (simp add: hex_byte_def)
  obtain g1 g2 where g: "hex_byte g = [g1, g2]" by (simp add: hex_byte_def)
  obtain b1 b2 where b: "hex_byte b = [b1, b2]" by (simp add: hex_byte_def)
  have "hex_colour (r, g, b) = [CHR ''#'', r1, r2, g1, g2, b1, b2]"
    by (simp add: hex_colour_def r g b)
  moreover have "parseInt_0x [r1, r2] = Some (uint r)"
    using parseInt_0x_hex_byte [of r] by (simp only: r)
  moreover have "parseInt_0x [g1, g2] = Some (uint g)"
    using parseInt_0x_hex_byte [of g] by (simp only: g)
  moreover have "parseInt_0x [b1, b2] = Some (uint b)"
    using parseInt_0x_hex_byte [of b] by (simp only: b)
  ultimately show ?thesis by (simp add: hexToRgb_def)
qed

section \<open>Witnesses\<close>


end
