(* ===== verification/Matcher.thy ===== *)
theory Matcher
  imports Palette Colour
begin

text \<open>
  The inventory-constrained matcher, \<open>mapToColours\<close> of \<open>src/script.js\<close> (lines
  157--197). Its state is the record \<open>match_state\<close>: the stock object
  \<open>remainingCounts\<close> (a deep copy of \<open>ORIGINAL_COUNTS\<close>), the per-pixel colours
  \<open>coreImage\<close> (initially black) and the per-pixel names \<open>coreColorNameMap\<close>
  (initially \<open>'Out of Stock'\<close>).
  \<^item> \<open>find_closest\<close> is the inner loop over \<open>Object.entries(RGB_VALUES)\<close>
    (lines 166--179) with the squared distance; \<open>find_closest_real\<close> is the same loop
    with the source's \<open>rgbDistance\<close>, and \<open>find_closest_real_eq\<close> shows they agree.
  \<^item> \<open>visit_pixel\<close> is one iteration of \<open>for (const idx of pixelIndices)\<close> (lines
    163--187), with the truthiness test \<open>if (bestName)\<close>: an empty name is no match.
  \<^item> \<open>match_loop\<close> runs the loop over the processing order.
  \<^item> \<open>reshape_rows\<close> is the loop of lines 191--194 that cuts the name list into rows
    of \<open>TARGET_SIZE\<close>; it advances by \<open>TARGET_SIZE\<close>, so with size 0 and a non-empty
    list it never stops, and it is a \<open>partial_function (option)\<close>.
  \<^item> \<open>mapToColours\<close> composes them, with the palette and \<open>TARGET_SIZE\<close> as
    parameters instead of globals.
\<close>

record match_state =
  remainingCounts :: "int js_object"
  coreImage :: "rgb list"
  coreColorNameMap :: "string list"

definition OUT_OF_STOCK :: string where
  "OUT_OF_STOCK = ''Out of Stock''"

text \<open>\<open>remainingCounts[name] > 0\<close>; \<open>undefined > 0\<close> is false.\<close>

definition in_stock :: "int js_object \<Rightarrow> string \<Rightarrow> bool" where
  "in_stock counts name = (case obj_get counts name of None \<Rightarrow> False | Some k \<Rightarrow> 0 < k)"

fun find_closest ::
  "int js_object \<Rightarrow> rgb \<Rightarrow> rgb js_object \<Rightarrow> string option \<Rightarrow> nat option \<Rightarrow> string option \<times> nat option"
where
  "find_closest counts c [] bestName minDistance = (bestName, minDistance)"
| "find_closest counts c ((name, q) # es) bestName minDistance =
     (if in_stock counts name then
        (let dist = rgb_dist_sq c q in
         if below dist minDistance then find_closest counts c es (Some name) (Some dist)
         else find_closest counts c es bestName minDistance)
      else find_closest counts c es bestName minDistance)"

fun find_closest_real ::
  "int js_object \<Rightarrow> rgb \<Rightarrow> rgb js_object \<Rightarrow> string option \<Rightarrow> real option \<Rightarrow> string option \<times> real option"
where
  "find_closest_real counts c [] bestName minDistance = (bestName, minDistance)"
| "find_closest_real counts c ((name, q) # es) bestName minDistance =
     (if in_stock counts name then
        (let dist = rgbDistance c q in
         if below dist minDistance then find_closest_real counts c es (Some name) (Some dist)
         else find_closest_real counts c es bestName minDistance)
      else find_closest_real counts c es bestName minDistance)"

definition visit_pixel :: "palette \<Rightarrow> rgb list \<Rightarrow> match_state \<Rightarrow> nat \<Rightarrow> match_state" where
  "visit_pixel pal pixels s idx =
     (let originalColor = pixels ! idx;
          bestName = fst (find_closest (remainingCounts s) originalColor (rgb_values pal) None None)
      in case bestName of
           None \<Rightarrow> s
         | Some name \<Rightarrow>
             if name = [] then s
             else s\<lparr>coreImage := (coreImage s)[idx := the (obj_get (rgb_values pal) name)],
                    coreColorNameMap := (coreColorNameMap s)[idx := name],
                    remainingCounts :=
                      obj_set name (the (obj_get (remainingCounts s) name) - 1) (remainingCounts s)\<rparr>)"

fun match_loop :: "palette \<Rightarrow> rgb list \<Rightarrow> nat list \<Rightarrow> match_state \<Rightarrow> match_state" where
  "match_loop pal pixels [] s = s"
| "match_loop pal pixels (idx # idxs) s = match_loop pal pixels idxs (visit_pixel pal pixels s idx)"

definition match_init :: "palette \<Rightarrow> nat \<Rightarrow> match_state" where
  "match_init pal numPixels =
     \<lparr>remainingCounts = original_counts pal,
      coreImage = replicate numPixels black,
      coreColorNameMap = replicate numPixels OUT_OF_STOCK\<rparr>"

text \<open>\<open>new Uint8ClampedArray(coreImage.flat())\<close>: the bytes are already in range.\<close>

definition flat_rgb :: "rgb list \<Rightarrow> u8 list" where
  "flat_rgb img = concat (map (\<lambda>(r, g, b). [r, g, b]) img)"

partial_function (option) reshape_rows ::
  "nat \<Rightarrow> 'a list \<Rightarrow> nat \<Rightarrow> 'a list list \<Rightarrow> 'a list list option"
where
  "reshape_rows targetSize xs i acc =
     (if i < length xs then reshape_rows targetSize xs (i + targetSize) (acc @ [take targetSize (drop i xs)])
      else Some acc)"

definition mapToColours ::
  "nat \<Rightarrow> palette \<Rightarrow> rgb list \<Rightarrow> nat list \<Rightarrow> (u8 list \<times> int js_object \<times> string list list) option"
where
  "mapToColours targetSize pal pixels pixelIndices =
     (let s = match_loop pal pixels pixelIndices (match_init pal (length pixels))
      in map_option (\<lambda>rows. (flat_rgb (coreImage s), remainingCounts s, rows))
           (reshape_rows targetSize (coreColorNameMap s) 0 []))"

section \<open>The palette scan\<close>

abbreviation dist_to :: "rgb \<Rightarrow> string \<times> rgb \<Rightarrow> nat" where
  "dist_to c e \<equiv> rgb_dist_sq c (snd e)"

lemma find_closest_min_mono:
  "find_closest counts c es b m = (b', m') \<Longrightarrow> \<not> below x m \<Longrightarrow> \<not> below x m'"
proof (induction counts c es b m arbitrary: b' m' rule: find_closest.induct)
  case (1 counts c bestName minDistance)
  then show ?case by simp
next
  case (2 counts c name q es bestName minDistance)
  then show ?case
    by (cases minDistance) (auto simp: Let_def split: if_splits)
qed

lemma find_closest_lower_bound:
  "find_closest counts c es b m = (b', m') \<Longrightarrow>
     \<forall>e \<in> set es. in_stock counts (fst e) \<longrightarrow> \<not> below (dist_to c e) m'"
proof (induction counts c es b m arbitrary: b' m' rule: find_closest.induct)
  case (1 counts c bestName minDistance)
  then show ?case by simp
next
  case (2 counts c name q es bestName minDistance)
  show ?case
  proof (cases "in_stock counts name")
    case True
    show ?thesis
    proof (cases "below (rgb_dist_sq c q) minDistance")
      case b: True
      with True "2.prems" have r: "find_closest counts c es (Some name) (Some (rgb_dist_sq c q)) = (b', m')"
        by simp
      have "\<not> below (rgb_dist_sq c q) m'"
        by (rule find_closest_min_mono [OF r]) simp
      with "2.IH"(1) [OF True refl b r] show ?thesis by auto
    next
      case b: False
      with True "2.prems" have r: "find_closest counts c es bestName minDistance = (b', m')"
        by simp
      have "\<not> below (rgb_dist_sq c q) m'"
        by (rule find_closest_min_mono [OF r b])
      with "2.IH"(2) [OF True refl b r] show ?thesis by auto
    qed
  next
    case False
    with "2.prems" "2.IH"(3) [OF False] show ?thesis by auto
  qed
qed

lemma find_closest_choice:
  "find_closest counts c es b m = (b', m') \<Longrightarrow>
     (b' = b \<and> m' = m) \<or>
     (\<exists>pre n q post. es = pre @ (n, q) # post \<and> in_stock counts n \<and>
        b' = Some n \<and> m' = Some (rgb_dist_sq c q) \<and> below (rgb_dist_sq c q) m \<and>
        (\<forall>e \<in> set pre. in_stock counts (fst e) \<longrightarrow> rgb_dist_sq c q < dist_to c e))"
proof (induction counts c es b m arbitrary: b' m' rule: find_closest.induct)
  case (1 counts c bestName minDistance)
  then show ?case by simp
next
  case (2 counts c name q es bestName minDistance)
  let ?d0 = "rgb_dist_sq c q"
  show ?case
  proof (cases "in_stock counts name")
    case st: True
    show ?thesis
    proof (cases "below ?d0 minDistance")
      case b: True
      with st "2.prems" have r: "find_closest counts c es (Some name) (Some ?d0) = (b', m')"
        by simp
      from "2.IH"(1) [OF st refl b r] show ?thesis
      proof
        assume "b' = Some name \<and> m' = Some ?d0"
        with st b have "(name, q) # es = [] @ (name, q) # es \<and> in_stock counts name \<and> b' = Some name \<and>
            m' = Some ?d0 \<and> below ?d0 minDistance \<and>
            (\<forall>e \<in> set []. in_stock counts (fst e) \<longrightarrow> ?d0 < dist_to c e)"
          by simp
        then show ?thesis by blast
      next
        assume "\<exists>pre n q' post. es = pre @ (n, q') # post \<and> in_stock counts n \<and>
            b' = Some n \<and> m' = Some (rgb_dist_sq c q') \<and> below (rgb_dist_sq c q') (Some ?d0) \<and>
            (\<forall>e \<in> set pre. in_stock counts (fst e) \<longrightarrow> rgb_dist_sq c q' < dist_to c e)"
        then obtain pre n q' post where
          "es = pre @ (n, q') # post" "in_stock counts n" "b' = Some n"
          "m' = Some (rgb_dist_sq c q')" "below (rgb_dist_sq c q') (Some ?d0)"
          "\<forall>e \<in> set pre. in_stock counts (fst e) \<longrightarrow> rgb_dist_sq c q' < dist_to c e"
          by blast
        with b show ?thesis
          by (intro disjI2 exI [of _ "(name, q) # pre"]) (auto intro: below_Some_trans)
      qed
    next
      case b: False
      with st "2.prems" have r: "find_closest counts c es bestName minDistance = (b', m')"
        by simp
      from "2.IH"(2) [OF st refl b r] show ?thesis
      proof
        assume "b' = bestName \<and> m' = minDistance"
        then show ?thesis by simp
      next
        assume "\<exists>pre n q' post. es = pre @ (n, q') # post \<and> in_stock counts n \<and>
            b' = Some n \<and> m' = Some (rgb_dist_sq c q') \<and> below (rgb_dist_sq c q') minDistance \<and>
            (\<forall>e \<in> set pre. in_stock counts (fst e) \<longrightarrow> rgb_dist_sq c q' < dist_to c e)"
        then obtain pre n q' post where
          "es = pre @ (n, q') # post" "in_stock counts n" "b' = Some n"
          "m' = Some (rgb_dist_sq c q')" "below (rgb_dist_sq c q') minDistance"
          "\<forall>e \<in> set pre. in_stock counts (fst e) \<longrightarrow> rgb_dist_sq c q' < dist_to c e"
          by blast
        with b show ?thesis
          by (intro disjI2 exI [of _ "(name, q) # pre"]) (cases minDistance, auto)
      qed
    qed
  next
    case st: False
    with "2.prems" have r: "find_closest counts c es bestName minDistance = (b', m')"
      by simp
    from "2.IH"(3) [OF st r] st show ?thesis
      by (elim disjE exE conjE) (fastforce intro: exI [of _ "(name, q) # _"])+
  qed
qed

lemma find_closest_no_stock:
  "\<forall>e \<in> set es. \<not> in_stock counts (fst e) \<Longrightarrow> find_closest counts c es b m = (b, m)"
  by (induction counts c es b m rule: find_closest.induct) auto

lemma find_closest_Some_in_stock:
  assumes "fst (find_closest counts c es None None) = Some name"
  shows "in_stock counts name \<and> name \<in> fst ` set es"
proof -
  obtain m' where r: "find_closest counts c es None None = (Some name, m')"
    using assms by (cases "find_closest counts c es None None") auto
  from find_closest_choice [OF r] show ?thesis by force
qed

lemma find_closest_Some_of_stock:
  assumes "e \<in> set es" and "in_stock counts (fst e)"
  shows "fst (find_closest counts c es None None) \<noteq> None"
proof
  assume "fst (find_closest counts c es None None) = None"
  then obtain m' where r: "find_closest counts c es None None = (None, m')"
    by (cases "find_closest counts c es None None") auto
  from find_closest_choice [OF r] have "m' = None" by auto
  with find_closest_lower_bound [OF r] assms show False by auto
qed

text \<open>C1: the colour the scan picks is in stock, at least as close as every
  in-stock entry after it and strictly closer than every in-stock entry before it: the
  first nearest available colour in palette order.\<close>

theorem find_closest_first_nearest:
  assumes "fst (find_closest counts c es None None) = Some name"
  shows "\<exists>pre q post. es = pre @ (name, q) # post \<and> in_stock counts name \<and>
           (\<forall>e \<in> set pre. in_stock counts (fst e) \<longrightarrow> rgb_dist_sq c q < dist_to c e) \<and>
           (\<forall>e \<in> set post. in_stock counts (fst e) \<longrightarrow> rgb_dist_sq c q \<le> dist_to c e)"
proof -
  obtain m' where r: "find_closest counts c es None None = (Some name, m')"
    using assms by (cases "find_closest counts c es None None") auto
  from find_closest_choice [OF r] obtain pre q post where
    es: "es = pre @ (name, q) # post" and st: "in_stock counts name"
    and m': "m' = Some (rgb_dist_sq c q)"
    and pre: "\<forall>e \<in> set pre. in_stock counts (fst e) \<longrightarrow> rgb_dist_sq c q < dist_to c e"
    by auto
  from find_closest_lower_bound [OF r] m' es
  have "\<forall>e \<in> set post. in_stock counts (fst e) \<longrightarrow> rgb_dist_sq c q \<le> dist_to c e"
    by (auto simp: not_less)
  with es st pre show ?thesis by blast
qed

text \<open>C8: the scan finds no colour exactly when no palette entry is in stock.\<close>

theorem find_closest_None_iff:
  "fst (find_closest counts c es None None) = None \<longleftrightarrow> (\<forall>e \<in> set es. \<not> in_stock counts (fst e))"
  using find_closest_Some_of_stock [of _ es counts c] find_closest_no_stock [of es counts c None None]
  by auto

lemma below_sqrt_iff:
  "below (sqrt (real x)) (map_option (\<lambda>d. sqrt (real d)) m) \<longleftrightarrow> below x m"
  by (cases m) auto

lemma find_closest_real_gen:
  "find_closest_real counts c es b (map_option (\<lambda>d. sqrt (real d)) m) =
     map_prod id (map_option (\<lambda>d. sqrt (real d))) (find_closest counts c es b m)"
proof (induction counts c es b m rule: find_closest.induct)
  case (1 counts c bestName minDistance)
  then show ?case by simp
next
  case (2 counts c name q es bestName minDistance)
  have "below (rgbDistance c q) (map_option (\<lambda>d. sqrt (real d)) minDistance)
        \<longleftrightarrow> below (rgb_dist_sq c q) minDistance"
    by (simp only: rgbDistance_sqrt below_sqrt_iff)
  with 2 show ?case
    by (simp add: Let_def rgbDistance_sqrt [of c q] del: below.simps)
qed


section \<open>Witnesses\<close>

lemma find_closest_first_nearest_witness:
  "fst (find_closest [(''A'', 1), (''B'', 1)] (0, 0, 0) [(''A'', (0, 0, 10)), (''B'', (10, 0, 0))] None None)
     = Some ''A'' \<and>
   (\<exists>pre q post. [(''A'', (0, 0, 10)), (''B'', (10, 0, 0))] = pre @ (''A'', q) # post)"
proof -
  have h: "fst (find_closest [(''A'', 1), (''B'', 1)] (0, 0, 0)
             [(''A'', (0, 0, 10)), (''B'', (10, 0, 0))] None None) = Some ''A''"
    by (simp add: in_stock_def obj_get_def rgb_dist_sq_def chan_def)
  show ?thesis using h find_closest_first_nearest [OF h] by blast
qed

lemma find_closest_None_iff_witness:
  "fst (find_closest [(''A'', 0)] (0, 0, 0) [(''A'', (0, 0, 10))] None None) = None"
  using find_closest_None_iff [of "[(''A'', 0)]" "(0, 0, 0)" "[(''A'', (0, 0, 10))]"]
  by (simp add: in_stock_def obj_get_def)

end
