(* ===== verification/Matcher_Loop.thy ===== *)
theory Matcher_Loop
  imports Matcher
begin

text \<open>
  The invariants of the matcher loop and the theorems about \<open>mapToColours\<close> as a whole.
  \<^item> \<open>stock_inv\<close>: \<open>remainingCounts\<close> keeps the palette's keys in order, every count
    stays between 0 and its original value, and the stock used of each colour equals the
    number of pixels that carry its name.
  \<^item> \<open>pixels_inv\<close>: every pixel is either still \<open>'Out of Stock'\<close> and black or carries a
    palette name and that name's colour.
  \<^item> \<open>remaining_total\<close> and \<open>assigned_count\<close>: the stock left and the pixels assigned;
    their sum is constant along the loop.
  \<^item> \<open>chunks\<close>: the reference for the reshape loop; \<open>reshape_rows\<close> returns it for a
    positive row size.
  The loop lemmas assume that the processing order is duplicate-free and within range
  (what \<open>getPixelData_perm\<close> gives), that the palette is well formed and that no colour
  is called \<open>'Out of Stock'\<close>.
\<close>

definition stock_inv :: "palette \<Rightarrow> match_state \<Rightarrow> bool" where
  "stock_inv pal s \<longleftrightarrow>
     map fst (remainingCounts s) = map fst pal \<and>
     list_all (\<lambda>(name, data). case obj_get (remainingCounts s) name of
         None \<Rightarrow> False
       | Some v \<Rightarrow> 0 \<le> v \<and> v \<le> cd_count data \<and>
                   cd_count data - v = int (count_list (coreColorNameMap s) name)) pal"

definition pixels_inv :: "palette \<Rightarrow> nat \<Rightarrow> match_state \<Rightarrow> bool" where
  "pixels_inv pal n s \<longleftrightarrow>
     length (coreImage s) = n \<and> length (coreColorNameMap s) = n \<and>
     list_all (\<lambda>i. (coreColorNameMap s ! i = OUT_OF_STOCK \<and> coreImage s ! i = black) \<or>
                   obj_get (rgb_values pal) (coreColorNameMap s ! i) = Some (coreImage s ! i)) [0..<n]"

definition remaining_total :: "match_state \<Rightarrow> int" where
  "remaining_total s = sum_list (map snd (remainingCounts s))"

definition assigned_count :: "match_state \<Rightarrow> nat" where
  "assigned_count s = length (filter (\<lambda>x. x \<noteq> OUT_OF_STOCK) (coreColorNameMap s))"

fun chunks :: "nat \<Rightarrow> 'a list \<Rightarrow> 'a list list" where
  "chunks k xs = (if k = 0 \<or> xs = [] then [] else take k xs # chunks k (drop k xs))"

declare chunks.simps [simp del]

section \<open>One visit\<close>

lemma visit_pixel_unchanged:
  assumes "fst (find_closest (remainingCounts s) (pixels ! idx) (rgb_values pal) None None) = None \<or>
           fst (find_closest (remainingCounts s) (pixels ! idx) (rgb_values pal) None None) = Some []"
  shows "visit_pixel pal pixels s idx = s"
  using assms by (auto simp: visit_pixel_def Let_def)

lemma visit_pixel_assign:
  assumes "fst (find_closest (remainingCounts s) (pixels ! idx) (rgb_values pal) None None) = Some name"
    and "name \<noteq> []"
  shows "visit_pixel pal pixels s idx =
     s\<lparr>coreImage := (coreImage s)[idx := the (obj_get (rgb_values pal) name)],
       coreColorNameMap := (coreColorNameMap s)[idx := name],
       remainingCounts := obj_set name (the (obj_get (remainingCounts s) name) - 1) (remainingCounts s)\<rparr>"
  using assms by (simp add: visit_pixel_def Let_def)

lemma in_stock_Some: "in_stock counts name \<Longrightarrow> \<exists>v. obj_get counts name = Some v \<and> 0 < v"
  by (auto simp: in_stock_def split: option.splits)

lemma visit_pixel_inv:
  assumes wf: "palette_wf pal" and oos: "OUT_OF_STOCK \<notin> fst ` set pal"
    and si: "stock_inv pal s" and pi: "pixels_inv pal n s"
    and idx: "idx < n" and fresh: "coreColorNameMap s ! idx = OUT_OF_STOCK"
  shows "stock_inv pal (visit_pixel pal pixels s idx) \<and> pixels_inv pal n (visit_pixel pal pixels s idx)"
proof (cases "fst (find_closest (remainingCounts s) (pixels ! idx) (rgb_values pal) None None)")
  case None
  with si pi show ?thesis by (simp add: visit_pixel_unchanged)
next
  case (Some name)
  show ?thesis
  proof (cases "name = []")
    case True
    with Some si pi show ?thesis by (simp add: visit_pixel_unchanged)
  next
    case nonempty: False
    from find_closest_Some_in_stock [OF Some] keys_rgb_values_set [OF wf]
    have st: "in_stock (remainingCounts s) name" and key: "name \<in> fst ` set pal" by auto
    from in_stock_Some [OF st] obtain v where v: "obj_get (remainingCounts s) name = Some v" "0 < v"
      by blast
    from obj_get_rgb_values [OF wf key] obtain q where q: "obj_get (rgb_values pal) name = Some q"
      by blast
    have keys: "name \<in> fst ` set (remainingCounts s)"
      using key si unfolding stock_inv_def by (metis list.set_map)
    have len: "length (coreColorNameMap s) = n" using pi by (simp add: pixels_inv_def)
    let ?s' = "visit_pixel pal pixels s idx"
    have s': "?s' = s\<lparr>coreImage := (coreImage s)[idx := q],
       coreColorNameMap := (coreColorNameMap s)[idx := name],
       remainingCounts := obj_set name (v - 1) (remainingCounts s)\<rparr>"
      using visit_pixel_assign [OF Some nonempty] v q by simp
    have cnt: "count_list (coreColorNameMap ?s') k =
        count_list (coreColorNameMap s) k + (if name = k then 1 else 0)" if "k \<in> fst ` set pal" for k
    proof -
      from that oos fresh have "coreColorNameMap s ! idx \<noteq> k" by auto
      with idx len show ?thesis by (simp add: s' count_list_update_fresh)
    qed
    have "stock_inv pal ?s'"
      unfolding stock_inv_def list_all_iff
    proof (intro conjI ballI)
      show "map fst (remainingCounts ?s') = map fst pal"
        using si keys by (simp add: s' stock_inv_def keys_obj_set)
    next
      fix e assume e: "e \<in> set pal"
      obtain k data where kd: "e = (k, data)" by (cases e)
      from si e kd obtain w where w: "obj_get (remainingCounts s) k = Some w"
        "0 \<le> w" "w \<le> cd_count data" "cd_count data - w = int (count_list (coreColorNameMap s) k)"
        by (auto simp: stock_inv_def list_all_iff split: option.splits)
      have "k \<in> fst ` set pal" using e kd by force
      with cnt [of k] w v show "case e of (name, data) \<Rightarrow>
          (case obj_get (remainingCounts ?s') name of None \<Rightarrow> False
           | Some v \<Rightarrow> 0 \<le> v \<and> v \<le> cd_count data \<and>
               cd_count data - v = int (count_list (coreColorNameMap ?s') name))"
        by (auto simp: kd s' obj_get_set)
    qed
    moreover have "pixels_inv pal n ?s'"
      using pi q idx by (auto simp: pixels_inv_def list_all_iff s' nth_list_update)
    ultimately show ?thesis by simp
  qed
qed

lemma stock_inv_values:
  assumes wf: "palette_wf pal" and si: "stock_inv pal s" and kv: "(k, v) \<in> set (remainingCounts s)"
  shows "0 \<le> v"
proof -
  have keys: "map fst (remainingCounts s) = map fst pal" using si by (simp add: stock_inv_def)
  with wf have dist: "distinct (map fst (remainingCounts s))" by (simp add: palette_wf_def)
  from kv dist have get: "obj_get (remainingCounts s) k = Some v" by (simp add: obj_get_def)
  from kv have "k \<in> set (map fst (remainingCounts s))" by force
  with keys have "k \<in> set (map fst pal)" by simp
  then obtain data where "(k, data) \<in> set pal" by auto
  with si get show ?thesis by (auto simp: stock_inv_def list_all_iff)
qed

lemma visit_pixel_frame:
  "j \<noteq> idx \<Longrightarrow> coreColorNameMap (visit_pixel pal pixels s idx) ! j = coreColorNameMap s ! j"
  by (auto simp: visit_pixel_def Let_def split: option.splits)

lemma visit_pixel_stock:
  assumes wf: "palette_wf pal" and truthy: "names_truthy pal" and oos: "OUT_OF_STOCK \<notin> fst ` set pal"
    and si: "stock_inv pal s" and pi: "pixels_inv pal n s"
    and idx: "idx < n" and fresh: "coreColorNameMap s ! idx = OUT_OF_STOCK"
  shows "if 0 < remaining_total s
         then coreColorNameMap (visit_pixel pal pixels s idx) ! idx \<noteq> OUT_OF_STOCK \<and>
              remaining_total (visit_pixel pal pixels s idx) = remaining_total s - 1
         else visit_pixel pal pixels s idx = s"
proof -
  let ?rc = "remainingCounts s" and ?c = "pixels ! idx"
  have keys: "map fst ?rc = map fst pal" using si by (simp add: stock_inv_def)
  with wf have dist: "distinct (map fst ?rc)" by (simp add: palette_wf_def)
  have nonneg: "\<forall>e \<in> set ?rc. 0 \<le> snd e"
    using stock_inv_values [OF wf si] by auto
  show ?thesis
  proof (cases "0 < remaining_total s")
    case True
    then have "\<exists>e \<in> set ?rc. 0 < snd e"
      using nonneg sum_list_nonpos [of "map snd ?rc"] by (force simp: remaining_total_def)
    then obtain k v where kv: "(k, v) \<in> set ?rc" "0 < v" by auto
    with dist have get: "obj_get ?rc k = Some v" by (simp add: obj_get_def)
    then have st: "in_stock ?rc k" using kv by (simp add: in_stock_def)
    have "k \<in> fst ` set (rgb_values pal)"
      using kv keys keys_rgb_values_set [OF wf] by (metis fst_conv image_eqI list.set_map)
    then obtain q where "(k, q) \<in> set (rgb_values pal)" by auto
    from find_closest_Some_of_stock [OF this, of ?rc ?c] st obtain name where
      found: "fst (find_closest ?rc ?c (rgb_values pal) None None) = Some name" by auto
    from find_closest_Some_in_stock [OF found] keys_rgb_values_set [OF wf]
    have st': "in_stock ?rc name" and key: "name \<in> fst ` set pal" by auto
    from truthy key have nonempty: "name \<noteq> []"
      by (auto simp: names_truthy_def list_all_iff)
    from in_stock_Some [OF st'] obtain w where w: "obj_get ?rc name = Some w" by blast
    from obj_get_rgb_values [OF wf key] obtain q' where q': "obj_get (rgb_values pal) name = Some q'"
      by blast
    have len: "length (coreColorNameMap s) = n" using pi by (simp add: pixels_inv_def)
    have "coreColorNameMap (visit_pixel pal pixels s idx) ! idx = name"
      using visit_pixel_assign [OF found nonempty] idx len by simp
    moreover have "name \<noteq> OUT_OF_STOCK" using key oos by blast
    moreover have "remaining_total (visit_pixel pal pixels s idx) = remaining_total s - 1"
      using visit_pixel_assign [OF found nonempty] w sum_obj_set [OF dist w]
      by (simp add: remaining_total_def)
    ultimately show ?thesis using True by simp
  next
    case False
    with nonneg have zero: "\<forall>e \<in> set ?rc. snd e = 0"
      using sum_list_nonneg_eq_0_iff [of "map snd ?rc"] sum_list_nonneg [of "map snd ?rc"]
      by (force simp: remaining_total_def)
    have "\<forall>e \<in> set (rgb_values pal). \<not> in_stock ?rc (fst e)"
    proof
      fix e assume "e \<in> set (rgb_values pal)"
      show "\<not> in_stock ?rc (fst e)"
      proof
        assume "in_stock ?rc (fst e)"
        then obtain v where "obj_get ?rc (fst e) = Some v" "0 < v" by (auto dest: in_stock_Some)
        then have "(fst e, v) \<in> set ?rc" "0 < v" by (auto simp: obj_get_def dest: map_of_SomeD)
        with zero show False by force
      qed
    qed
    then have "fst (find_closest ?rc ?c (rgb_values pal) None None) = None"
      by (simp add: find_closest_no_stock)
    with False show ?thesis by (simp add: visit_pixel_unchanged)
  qed
qed

lemma match_loop_frame:
  "j \<notin> set idxs \<Longrightarrow> coreColorNameMap (match_loop pal pixels idxs s) ! j = coreColorNameMap s ! j"
  by (induction idxs arbitrary: s) (auto simp: visit_pixel_frame)

lemma visit_pixel_fresh_rest:
  assumes "idx \<notin> set idxs" and "\<forall>i \<in> set idxs. i < n \<and> coreColorNameMap s ! i = OUT_OF_STOCK"
  shows "\<forall>i \<in> set idxs. i < n \<and> coreColorNameMap (visit_pixel pal pixels s idx) ! i = OUT_OF_STOCK"
proof
  fix i assume "i \<in> set idxs"
  with assms have "i \<noteq> idx" and "i < n \<and> coreColorNameMap s ! i = OUT_OF_STOCK" by auto
  then show "i < n \<and> coreColorNameMap (visit_pixel pal pixels s idx) ! i = OUT_OF_STOCK"
    by (simp add: visit_pixel_frame)
qed

lemma match_loop_inv:
  assumes wf: "palette_wf pal" and oos: "OUT_OF_STOCK \<notin> fst ` set pal"
    and "stock_inv pal s" and "pixels_inv pal n s" and "distinct idxs"
    and "\<forall>i \<in> set idxs. i < n \<and> coreColorNameMap s ! i = OUT_OF_STOCK"
  shows "stock_inv pal (match_loop pal pixels idxs s) \<and> pixels_inv pal n (match_loop pal pixels idxs s)"
  using assms(3-6)
proof (induction idxs arbitrary: s)
  case Nil
  then show ?case by simp
next
  case (Cons idx idxs)
  let ?s1 = "visit_pixel pal pixels s idx"
  from Cons.prems have inv1: "stock_inv pal ?s1 \<and> pixels_inv pal n ?s1"
    by (intro visit_pixel_inv [OF wf oos]) auto
  from Cons.prems have "\<forall>i \<in> set idxs. i < n \<and> coreColorNameMap ?s1 ! i = OUT_OF_STOCK"
    by (intro visit_pixel_fresh_rest) auto
  with inv1 Cons.prems Cons.IH [of ?s1] show ?case by simp
qed

lemma match_loop_exhaustion_gen:
  assumes wf: "palette_wf pal" and truthy: "names_truthy pal" and oos: "OUT_OF_STOCK \<notin> fst ` set pal"
    and "stock_inv pal s" and "pixels_inv pal n s" and "distinct idxs"
    and "\<forall>i \<in> set idxs. i < n \<and> coreColorNameMap s ! i = OUT_OF_STOCK"
    and "p < length idxs"
  shows "coreColorNameMap (match_loop pal pixels idxs s) ! (idxs ! p) \<noteq> OUT_OF_STOCK
         \<longleftrightarrow> int p < remaining_total s"
  using assms(4-8)
proof (induction idxs arbitrary: s p)
  case Nil
  then show ?case by simp
next
  case (Cons idx idxs)
  let ?s1 = "visit_pixel pal pixels s idx"
  have idx: "idx < n" and fresh: "coreColorNameMap s ! idx = OUT_OF_STOCK"
    using Cons.prems by auto
  have step: "if 0 < remaining_total s
         then coreColorNameMap ?s1 ! idx \<noteq> OUT_OF_STOCK \<and> remaining_total ?s1 = remaining_total s - 1
         else ?s1 = s"
    using visit_pixel_stock [OF wf truthy oos] Cons.prems by auto
  have inv1: "stock_inv pal ?s1 \<and> pixels_inv pal n ?s1"
    using Cons.prems by (intro visit_pixel_inv [OF wf oos]) auto
  have fresh1: "\<forall>i \<in> set idxs. i < n \<and> coreColorNameMap ?s1 ! i = OUT_OF_STOCK"
    using Cons.prems by (intro visit_pixel_fresh_rest) auto
  have notin: "idx \<notin> set idxs" using Cons.prems by simp
  show ?case
  proof (cases p)
    case 0
    have "coreColorNameMap (match_loop pal pixels (idx # idxs) s) ! idx = coreColorNameMap ?s1 ! idx"
      by (simp add: match_loop_frame [OF notin])
    with step fresh 0 show ?thesis by (simp split: if_splits)
  next
    case (Suc p')
    with Cons.prems have p': "p' < length idxs" by simp
    from Cons.IH [of ?s1 p'] inv1 fresh1 Cons.prems p'
    have "coreColorNameMap (match_loop pal pixels idxs ?s1) ! (idxs ! p') \<noteq> OUT_OF_STOCK
          \<longleftrightarrow> int p' < remaining_total ?s1" by simp
    with step Suc show ?thesis by (auto split: if_splits)
  qed
qed

lemma remaining_total_nonneg:
  "palette_wf pal \<Longrightarrow> stock_inv pal s \<Longrightarrow> 0 \<le> remaining_total s"
  unfolding remaining_total_def
  by (rule sum_list_nonneg) (auto dest: stock_inv_values)

lemma match_loop_remaining:
  assumes wf: "palette_wf pal" and truthy: "names_truthy pal" and oos: "OUT_OF_STOCK \<notin> fst ` set pal"
    and "stock_inv pal s" and "pixels_inv pal n s" and "distinct idxs"
    and "\<forall>i \<in> set idxs. i < n \<and> coreColorNameMap s ! i = OUT_OF_STOCK"
  shows "remaining_total (match_loop pal pixels idxs s) = max 0 (remaining_total s - int (length idxs))"
  using assms(4-7)
proof (induction idxs arbitrary: s)
  case Nil
  then show ?case using remaining_total_nonneg [OF wf] by simp
next
  case (Cons idx idxs)
  let ?s1 = "visit_pixel pal pixels s idx"
  have step: "if 0 < remaining_total s
         then coreColorNameMap ?s1 ! idx \<noteq> OUT_OF_STOCK \<and> remaining_total ?s1 = remaining_total s - 1
         else ?s1 = s"
    using visit_pixel_stock [OF wf truthy oos] Cons.prems by auto
  have inv1: "stock_inv pal ?s1 \<and> pixels_inv pal n ?s1"
    using Cons.prems by (intro visit_pixel_inv [OF wf oos]) auto
  have fresh1: "\<forall>i \<in> set idxs. i < n \<and> coreColorNameMap ?s1 ! i = OUT_OF_STOCK"
    using Cons.prems by (intro visit_pixel_fresh_rest) auto
  from Cons.IH [of ?s1] inv1 fresh1 Cons.prems
  have "remaining_total (match_loop pal pixels idxs ?s1) = max 0 (remaining_total ?s1 - int (length idxs))"
    by simp
  with step show ?case by (simp split: if_splits)
qed

section \<open>The reshape loop\<close>

lemma reshape_rows_chunks:
  assumes "0 < k"
  shows "reshape_rows k xs i acc = Some (acc @ chunks k (drop i xs))"
proof (induction "length xs - i" arbitrary: i acc rule: less_induct)
  case less
  show ?case
  proof (cases "i < length xs")
    case True
    with assms have dec: "length xs - (i + k) < length xs - i" by simp
    have "reshape_rows k xs i acc = reshape_rows k xs (i + k) (acc @ [take k (drop i xs)])"
      using True by (subst reshape_rows.simps) simp
    also have "\<dots> = Some (acc @ [take k (drop i xs)] @ chunks k (drop (i + k) xs))"
      using less [OF dec] by simp
    also have "[take k (drop i xs)] @ chunks k (drop (i + k) xs) = chunks k (drop i xs)"
      using True assms by (subst (2) chunks.simps) (simp add: add.commute)
    finally show ?thesis by simp
  next
    case False
    then show ?thesis by (subst reshape_rows.simps) (simp add: chunks.simps)
  qed
qed

lemma concat_chunks: "0 < k \<Longrightarrow> concat (chunks k xs) = xs"
proof (induction k xs rule: chunks.induct)
  case (1 k xs)
  then show ?case by (subst chunks.simps) auto
qed

lemma chunks_rows:
  "0 < k \<Longrightarrow> length xs = k * m \<Longrightarrow> length (chunks k xs) = m \<and> (\<forall>r \<in> set (chunks k xs). length r = k)"
proof (induction k xs arbitrary: m rule: chunks.induct)
  case (1 k xs)
  show ?case
  proof (cases "xs = []")
    case True
    with "1.prems" show ?thesis by (simp add: chunks.simps)
  next
    case False
    with "1.prems" obtain m' where m: "m = Suc m'" by (cases m) auto
    with "1.prems" have "length (drop k xs) = k * m'" by simp
    with "1.IH" [of m'] "1.prems" False m show ?thesis
      by (simp add: chunks.simps [of k xs])
  qed
qed

lemma nth_chunks:
  "0 < k \<Longrightarrow> length xs = k * m \<Longrightarrow> y < m \<Longrightarrow> x < k \<Longrightarrow> chunks k xs ! y ! x = xs ! (y * k + x)"
proof (induction k xs arbitrary: m y rule: chunks.induct)
  case (1 k xs)
  from "1.prems" obtain m' where m: "m = Suc m'" by (cases m) auto
  with "1.prems" have ne: "xs \<noteq> []" by (cases xs) auto
  show ?case
  proof (cases y)
    case 0
    with "1.prems" ne show ?thesis by (subst chunks.simps) simp
  next
    case (Suc y')
    with "1.prems" m have "length (drop k xs) = k * m'" "y' < m'" by simp_all
    with "1.IH" [of m' y'] "1.prems" ne Suc show ?thesis
      by (subst chunks.simps) (simp add: add.assoc [symmetric] add.commute)
  qed
qed

section \<open>Conservation and initial state\<close>

lemma visit_pixel_conserve:
  assumes wf: "palette_wf pal" and oos: "OUT_OF_STOCK \<notin> fst ` set pal"
    and si: "stock_inv pal s" and pi: "pixels_inv pal n s"
    and idx: "idx < n" and fresh: "coreColorNameMap s ! idx = OUT_OF_STOCK"
  shows "remaining_total (visit_pixel pal pixels s idx) + int (assigned_count (visit_pixel pal pixels s idx))
         = remaining_total s + int (assigned_count s)"
proof (cases "fst (find_closest (remainingCounts s) (pixels ! idx) (rgb_values pal) None None)")
  case None
  then show ?thesis by (simp add: visit_pixel_unchanged)
next
  case (Some name)
  show ?thesis
  proof (cases "name = []")
    case True
    with Some show ?thesis by (simp add: visit_pixel_unchanged)
  next
    case nonempty: False
    from find_closest_Some_in_stock [OF Some] keys_rgb_values_set [OF wf]
    have st: "in_stock (remainingCounts s) name" and key: "name \<in> fst ` set pal" by auto
    from in_stock_Some [OF st] obtain w where w: "obj_get (remainingCounts s) name = Some w" by blast
    have keys: "map fst (remainingCounts s) = map fst pal" using si by (simp add: stock_inv_def)
    with wf have dist: "distinct (map fst (remainingCounts s))" by (simp add: palette_wf_def)
    have len: "length (coreColorNameMap s) = n" using pi by (simp add: pixels_inv_def)
    have ne: "name \<noteq> OUT_OF_STOCK" using key oos by blast
    have "assigned_count (visit_pixel pal pixels s idx) = Suc (assigned_count s)"
      using visit_pixel_assign [OF Some nonempty] idx len fresh ne
      by (simp add: assigned_count_def length_filter_update_fresh)
    moreover have "remaining_total (visit_pixel pal pixels s idx) = remaining_total s - 1"
      using visit_pixel_assign [OF Some nonempty] w sum_obj_set [OF dist w]
      by (simp add: remaining_total_def)
    ultimately show ?thesis by simp
  qed
qed

lemma match_loop_conserve:
  assumes wf: "palette_wf pal" and oos: "OUT_OF_STOCK \<notin> fst ` set pal"
    and "stock_inv pal s" and "pixels_inv pal n s" and "distinct idxs"
    and "\<forall>i \<in> set idxs. i < n \<and> coreColorNameMap s ! i = OUT_OF_STOCK"
  shows "remaining_total (match_loop pal pixels idxs s) + int (assigned_count (match_loop pal pixels idxs s))
         = remaining_total s + int (assigned_count s)"
  using assms(3-6)
proof (induction idxs arbitrary: s)
  case Nil
  then show ?case by simp
next
  case (Cons idx idxs)
  let ?s1 = "visit_pixel pal pixels s idx"
  have inv1: "stock_inv pal ?s1 \<and> pixels_inv pal n ?s1"
    using Cons.prems by (intro visit_pixel_inv [OF wf oos]) auto
  have fresh1: "\<forall>i \<in> set idxs. i < n \<and> coreColorNameMap ?s1 ! i = OUT_OF_STOCK"
    using Cons.prems by (intro visit_pixel_fresh_rest) auto
  have "remaining_total ?s1 + int (assigned_count ?s1) = remaining_total s + int (assigned_count s)"
    using Cons.prems by (intro visit_pixel_conserve [OF wf oos]) auto
  with Cons.IH [of ?s1] inv1 fresh1 Cons.prems show ?case by simp
qed

text \<open>C35: one visit of the loop never increases the stock count of any colour.\<close>

theorem visit_pixel_stock_le:
  "obj_get (remainingCounts (visit_pixel pal pixels s idx)) k = Some v' \<Longrightarrow>
     obj_get (remainingCounts s) k = Some v \<Longrightarrow> v' \<le> v"
  by (auto simp: visit_pixel_def Let_def obj_get_set split: option.splits if_splits)

lemma match_init_inv:
  assumes wf: "palette_wf pal" and oos: "OUT_OF_STOCK \<notin> fst ` set pal"
  shows "stock_inv pal (match_init pal n) \<and> pixels_inv pal n (match_init pal n)"
proof -
  have zero: "count_list (replicate n OUT_OF_STOCK) k = 0" if "k \<in> fst ` set pal" for k
    using that oos by (induction n) auto
  have la: "list_all (\<lambda>(name, data). case obj_get (original_counts pal) name of
         None \<Rightarrow> False
       | Some v \<Rightarrow> 0 \<le> v \<and> v \<le> cd_count data \<and>
                   cd_count data - v = int (count_list (replicate n OUT_OF_STOCK) name)) pal"
    unfolding list_all_iff
  proof (intro ballI)
    fix e assume e: "e \<in> set pal"
    obtain k data where kd: "e = (k, data)" by (cases e)
    from e kd have "k \<in> fst ` set pal" by force
    moreover have "0 \<le> cd_count data" using wf e kd by (auto simp: palette_wf_def list_all_iff)
    ultimately show "case e of (name, data) \<Rightarrow> (case obj_get (original_counts pal) name of
         None \<Rightarrow> False
       | Some v \<Rightarrow> 0 \<le> v \<and> v \<le> cd_count data \<and>
                   cd_count data - v = int (count_list (replicate n OUT_OF_STOCK) name))"
      using obj_get_original_counts [OF wf] e kd zero by simp
  qed
  have rc: "remainingCounts (match_init pal n) = original_counts pal"
    and nm: "coreColorNameMap (match_init pal n) = replicate n OUT_OF_STOCK"
    by (simp_all add: match_init_def)
  have "stock_inv pal (match_init pal n)"
    unfolding stock_inv_def rc nm by (intro conjI keys_original_counts [OF wf] la)
  moreover have "pixels_inv pal n (match_init pal n)"
    by (simp add: pixels_inv_def match_init_def list_all_iff)
  ultimately show ?thesis by simp
qed

lemma match_init_total:
  "palette_wf pal \<Longrightarrow> remaining_total (match_init pal n) = total_stock pal"
  by (simp add: remaining_total_def match_init_def total_stock_def case_prod_unfold comp_def)

lemma match_init_assigned: "assigned_count (match_init pal n) = 0"
  by (simp add: assigned_count_def match_init_def OUT_OF_STOCK_def)

lemma match_init_fresh:
  "\<forall>i \<in> set idxs. i < n \<Longrightarrow>
     \<forall>i \<in> set idxs. i < n \<and> coreColorNameMap (match_init pal n) ! i = OUT_OF_STOCK"
  by (simp add: match_init_def)

section \<open>mapToColours\<close>

lemma nth_flat_rgb:
  "i < length img \<Longrightarrow>
     (flat_rgb img ! (3 * i), flat_rgb img ! (3 * i + 1), flat_rgb img ! (3 * i + 2)) = img ! i"
proof (induction img arbitrary: i)
  case Nil
  then show ?case by simp
next
  case (Cons c img)
  obtain r g b where c: "c = (r, g, b)" by (cases c) auto
  show ?case
  proof (cases i)
    case 0
    then show ?thesis by (simp add: flat_rgb_def c)
  next
    case (Suc i')
    with Cons.prems have "i' < length img" by simp
    from Cons.IH [OF this] Suc show ?thesis by (simp add: flat_rgb_def c numeral_3_eq_3)
  qed
qed

lemma length_flat_rgb: "length (flat_rgb img) = 3 * length img"
  by (induction img) (auto simp: flat_rgb_def)

lemma mapToColours_SomeD:
  assumes "mapToColours k pal pixels order = Some (img, rem, rows)"
  shows "img = flat_rgb (coreImage (match_loop pal pixels order (match_init pal (length pixels)))) \<and>
         rem = remainingCounts (match_loop pal pixels order (match_init pal (length pixels))) \<and>
         reshape_rows k (coreColorNameMap (match_loop pal pixels order (match_init pal (length pixels)))) 0 []
           = Some rows"
  using assms by (auto simp: mapToColours_def Let_def)

lemma mapToColours_rows:
  assumes "0 < k" and "mapToColours k pal pixels order = Some (img, rem, rows)"
  shows "rows = chunks k (coreColorNameMap (match_loop pal pixels order (match_init pal (length pixels))))"
proof -
  let ?xs = "coreColorNameMap (match_loop pal pixels order (match_init pal (length pixels)))"
  have "Some rows = reshape_rows k ?xs 0 []"
    using mapToColours_SomeD [OF assms(2)] by simp
  also have "\<dots> = Some (chunks k ?xs)"
    using reshape_rows_chunks [OF assms(1), of ?xs 0 "[]"] by simp
  finally show ?thesis by simp
qed

lemma mapToColours_loop_inv:
  assumes wf: "palette_wf pal" and oos: "OUT_OF_STOCK \<notin> fst ` set pal"
    and "distinct order" and "\<forall>i \<in> set order. i < length pixels"
  shows "stock_inv pal (match_loop pal pixels order (match_init pal (length pixels))) \<and>
         pixels_inv pal (length pixels) (match_loop pal pixels order (match_init pal (length pixels)))"
  using match_init_inv [OF wf oos] match_init_fresh [OF assms(4)] assms(3)
  by (intro match_loop_inv [OF wf oos]) auto

lemma visit_pixel_names:
  assumes "list_all (\<lambda>n. n = OUT_OF_STOCK \<or> n \<in> set (map fst pal)) (coreColorNameMap s)"
  shows "list_all (\<lambda>n. n = OUT_OF_STOCK \<or> n \<in> set (map fst pal)) (coreColorNameMap (visit_pixel pal pixels s idx)) \<and>
         length (coreColorNameMap (visit_pixel pal pixels s idx)) = length (coreColorNameMap s)"
proof (cases "fst (find_closest (remainingCounts s) (pixels ! idx) (rgb_values pal) None None)")
  case None
  then show ?thesis using assms by (simp add: visit_pixel_def)
next
  case (Some name)
  then have "name \<in> fst ` set pal"
    using find_closest_Some_in_stock [OF Some] keys_rgb_values_all by simp
  then show ?thesis using assms Some
    by (auto simp: visit_pixel_def list_all_iff dest: set_update_subset_insert [THEN subsetD])
qed

lemma match_loop_names:
  assumes "list_all (\<lambda>n. n = OUT_OF_STOCK \<or> n \<in> set (map fst pal)) (coreColorNameMap s)"
  shows "list_all (\<lambda>n. n = OUT_OF_STOCK \<or> n \<in> set (map fst pal)) (coreColorNameMap (match_loop pal pixels idxs s)) \<and>
         length (coreColorNameMap (match_loop pal pixels idxs s)) = length (coreColorNameMap s)"
  using assms
proof (induction idxs arbitrary: s)
  case (Cons idx idxs)
  then show ?case using visit_pixel_names [OF Cons.prems] by simp
qed simp

lemma match_init_names:
  "list_all (\<lambda>n. n = OUT_OF_STOCK \<or> n \<in> set (map fst pal)) (coreColorNameMap (match_init pal n)) \<and>
   length (coreColorNameMap (match_init pal n)) = n"
  by (simp add: match_init_def list_all_iff)

lemma mapToColours_chunks:
  "0 < targetSize \<Longrightarrow>
   mapToColours targetSize pal pixels order =
     Some (flat_rgb (coreImage (match_loop pal pixels order (match_init pal (length pixels)))),
           remainingCounts (match_loop pal pixels order (match_init pal (length pixels))),
           chunks targetSize (coreColorNameMap (match_loop pal pixels order (match_init pal (length pixels)))))"
  by (simp add: mapToColours_def Let_def reshape_rows_chunks)

text \<open>C16: \<open>mapToColours\<close> returns for every positive row size: the reshape loop ends.\<close>

theorem mapToColours_terminates:
  "0 < targetSize \<Longrightarrow> mapToColours targetSize pal pixels order \<noteq> None"
  by (simp add: mapToColours_def Let_def reshape_rows_chunks)

text \<open>C4: after the run every colour of the palette still has its key, in order, and a remaining count between 0 and its original stock.\<close>

theorem mapToColours_stock_bounds:
  assumes wf: "palette_wf pal" and oos: "OUT_OF_STOCK \<notin> fst ` set pal"
    and "distinct order" and "\<forall>i \<in> set order. i < length pixels"
    and res: "mapToColours k pal pixels order = Some (img, rem, rows)"
  shows "map fst rem = map fst pal \<and>
         list_all (\<lambda>(name, data). \<exists>v. obj_get rem name = Some v \<and> 0 \<le> v \<and> v \<le> cd_count data) pal"
  using mapToColours_loop_inv [OF wf oos assms(3,4)] mapToColours_SomeD [OF res]
  by (auto simp: stock_inv_def list_all_iff split: option.splits)

text \<open>C5: for every colour, the stock used (original minus remaining) is the number of pixels that carry its name.\<close>

theorem mapToColours_usage:
  assumes wf: "palette_wf pal" and oos: "OUT_OF_STOCK \<notin> fst ` set pal"
    and "distinct order" and "\<forall>i \<in> set order. i < length pixels" and k: "0 < k"
    and res: "mapToColours k pal pixels order = Some (img, rem, rows)"
  shows "list_all (\<lambda>(name, data). obj_get rem name = Some (cd_count data - int (count_list (concat rows) name))) pal"
  using mapToColours_loop_inv [OF wf oos assms(3,4)] mapToColours_SomeD [OF res]
    mapToColours_rows [OF k res]
  by (auto simp: stock_inv_def list_all_iff concat_chunks [OF k] split: option.splits)

lemma match_run_used:
  assumes wf: "palette_wf pal" and oos: "OUT_OF_STOCK \<notin> fst ` set pal"
    and "distinct order" and "\<forall>i \<in> set order. i < length pixels"
  shows "total_stock pal - remaining_total (match_loop pal pixels order (match_init pal (length pixels))) =
           int (assigned_count (match_loop pal pixels order (match_init pal (length pixels))))"
proof -
  let ?init = "match_init pal (length pixels)"
  let ?s = "match_loop pal pixels order ?init"
  have "remaining_total ?s + int (assigned_count ?s) = remaining_total ?init + int (assigned_count ?init)"
    using match_init_inv [OF wf oos] match_init_fresh [OF assms(4)] assms(3)
    by (intro match_loop_conserve [OF wf oos]) auto
  then show ?thesis
    by (simp add: match_init_total [OF wf] match_init_assigned)
qed

text \<open>C6: the total stock used is the number of assigned pixels, and the name map has one entry per pixel, so assigned plus unassigned pixels make up the whole image.\<close>

theorem mapToColours_total_used:
  assumes wf: "palette_wf pal" and oos: "OUT_OF_STOCK \<notin> fst ` set pal"
    and "distinct order" and "\<forall>i \<in> set order. i < length pixels" and k: "0 < k"
    and res: "mapToColours k pal pixels order = Some (img, rem, rows)"
  shows "total_stock pal - sum_list (map snd rem) = int (length (filter (\<lambda>x. x \<noteq> OUT_OF_STOCK) (concat rows)))
         \<and> length (concat rows) = length pixels"
proof -
  let ?init = "match_init pal (length pixels)"
  let ?s = "match_loop pal pixels order ?init"
  have "total_stock pal - remaining_total ?s = int (assigned_count ?s)"
    by (rule match_run_used [OF wf oos assms(3,4)])
  moreover have "length (coreColorNameMap ?s) = length pixels"
    using mapToColours_loop_inv [OF wf oos assms(3,4)] by (simp add: pixels_inv_def)
  ultimately show ?thesis
    using mapToColours_SomeD [OF res] mapToColours_rows [OF k res]
    by (simp add: remaining_total_def assigned_count_def concat_chunks [OF k])
qed

text \<open>C2: the pixel at position \<open>p\<close> of the processing order is assigned exactly when \<open>p\<close> is below the total stock: the most important pixels are served first and exactly the rest become \<open>Out of Stock\<close>.\<close>

theorem mapToColours_exhaustion:
  assumes wf: "palette_wf pal" and truthy: "names_truthy pal" and oos: "OUT_OF_STOCK \<notin> fst ` set pal"
    and "distinct order" and "\<forall>i \<in> set order. i < length pixels" and k: "0 < k"
    and res: "mapToColours k pal pixels order = Some (img, rem, rows)"
    and p: "p < length order"
  shows "concat rows ! (order ! p) \<noteq> OUT_OF_STOCK \<longleftrightarrow> int p < total_stock pal"
proof -
  let ?init = "match_init pal (length pixels)"
  have inv: "stock_inv pal ?init" "pixels_inv pal (length pixels) ?init"
    using match_init_inv [OF wf oos] by simp_all
  have fresh: "\<forall>i \<in> set order. i < length pixels \<and> coreColorNameMap ?init ! i = OUT_OF_STOCK"
    by (rule match_init_fresh [OF assms(5)])
  have "coreColorNameMap (match_loop pal pixels order ?init) ! (order ! p) \<noteq> OUT_OF_STOCK
        \<longleftrightarrow> int p < remaining_total ?init"
    by (rule match_loop_exhaustion_gen [OF wf truthy oos inv assms(4) fresh p])
  moreover have "concat rows = coreColorNameMap (match_loop pal pixels order ?init)"
    using mapToColours_rows [OF k res] by (simp add: concat_chunks [OF k])
  ultimately show ?thesis by (simp add: match_init_total [OF wf])
qed

text \<open>C15: every pixel of the output image is black with the name \<open>Out of Stock\<close>, or carries a palette name and exactly that colour's RGB bytes.\<close>

theorem mapToColours_pixels:
  assumes wf: "palette_wf pal" and oos: "OUT_OF_STOCK \<notin> fst ` set pal"
    and "distinct order" and "\<forall>i \<in> set order. i < length pixels" and k: "0 < k"
    and res: "mapToColours k pal pixels order = Some (img, rem, rows)"
  shows "list_all (\<lambda>i. (concat rows ! i = OUT_OF_STOCK \<and> (img ! (3 * i), img ! (3 * i + 1), img ! (3 * i + 2)) = black)
            \<or> obj_get (rgb_values pal) (concat rows ! i) = Some (img ! (3 * i), img ! (3 * i + 1), img ! (3 * i + 2)))
           [0..<length pixels]"
proof -
  let ?s = "match_loop pal pixels order (match_init pal (length pixels))"
  have pi: "pixels_inv pal (length pixels) ?s"
    using mapToColours_loop_inv [OF wf oos assms(3,4)] by simp
  have img: "(img ! (3 * i), img ! (3 * i + 1), img ! (3 * i + 2)) = coreImage ?s ! i"
    if "i < length pixels" for i
    using mapToColours_SomeD [OF res] nth_flat_rgb [of i "coreImage ?s"] pi that
    by (simp add: pixels_inv_def)
  have names: "concat rows = coreColorNameMap ?s"
    using mapToColours_rows [OF k res] by (simp add: concat_chunks [OF k])
  show ?thesis
    unfolding list_all_iff
  proof
    fix i assume "i \<in> set [0..<length pixels]"
    then have i: "i < length pixels" by simp
    from pi i have "(coreColorNameMap ?s ! i = OUT_OF_STOCK \<and> coreImage ?s ! i = black) \<or>
        obj_get (rgb_values pal) (coreColorNameMap ?s ! i) = Some (coreImage ?s ! i)"
      by (simp add: pixels_inv_def list_all_iff)
    then show "(concat rows ! i = OUT_OF_STOCK \<and> (img ! (3 * i), img ! (3 * i + 1), img ! (3 * i + 2)) = black)
        \<or> obj_get (rgb_values pal) (concat rows ! i) = Some (img ! (3 * i), img ! (3 * i + 1), img ! (3 * i + 2))"
      unfolding img [OF i] names .
  qed
qed

section \<open>The worked example of the spec\<close>

lemma example_palette_facts:
  "palette_wf example_palette \<and> names_truthy example_palette \<and>
   OUT_OF_STOCK \<notin> fst ` set example_palette"
  by (simp add: example_palette_def palette_wf_def names_truthy_def OUT_OF_STOCK_def)

lemma example_run:
  "mapToColours 2 example_palette [(255, 0, 0), (0, 0, 255), (250, 5, 5), (0, 0, 0)] [2, 0, 1, 3] =
     Some ([0, 0, 255, 0, 0, 0, 255, 0, 0, 0, 0, 0], [(''Red'', 0), (''Blue'', 0)],
           [[''Blue'', ''Out of Stock''], [''Red'', ''Out of Stock'']])"
  by (simp add: mapToColours_def example_palette_def match_init_def OUT_OF_STOCK_def visit_pixel_def
       original_counts_def rgb_values_def from_entries_def obj_set_def obj_get_def in_stock_def
       rgb_dist_sq_def chan_def flat_rgb_def reshape_rows.simps)

lemma example_order: "distinct [2, 0, 1, 3 :: nat] \<and> (\<forall>i \<in> set [2, 0, 1, 3 :: nat]. i < length [(255, 0, 0), (0, 0, 255), (250, 5, 5), (0, 0, 0)])"
  by simp

section \<open>Witnesses\<close>

lemma visit_pixel_stock_le_witness:
  "obj_get (remainingCounts (visit_pixel example_palette [(255, 0, 0), (0, 0, 255), (250, 5, 5), (0, 0, 0)] (match_init example_palette 4) 2)) ''Red''
     = Some 0 \<and> (0::int) \<le> 1"
proof -
  have after: "obj_get (remainingCounts (visit_pixel example_palette [(255, 0, 0), (0, 0, 255), (250, 5, 5), (0, 0, 0)] (match_init example_palette 4) 2)) ''Red''
      = Some 0"
    by (simp add: example_palette_def match_init_def OUT_OF_STOCK_def visit_pixel_def
       original_counts_def rgb_values_def from_entries_def obj_set_def obj_get_def in_stock_def
       rgb_dist_sq_def chan_def)
  have before: "obj_get (remainingCounts (match_init example_palette 4)) ''Red'' = Some 1"
    by (simp add: example_palette_def match_init_def original_counts_def from_entries_def
        obj_set_def obj_get_def)
  show ?thesis using visit_pixel_stock_le [OF after before] after by simp
qed

lemma mapToColours_terminates_witness: "mapToColours 2 example_palette [(255, 0, 0), (0, 0, 255), (250, 5, 5), (0, 0, 0)] [2, 0, 1, 3] \<noteq> None"
  using mapToColours_terminates [of 2 example_palette "[(255, 0, 0), (0, 0, 255), (250, 5, 5), (0, 0, 0)]" "[2, 0, 1, 3]"]
  by simp

lemma mapToColours_stock_bounds_witness:
  "map fst [(''Red'', 0::int), (''Blue'', 0)] = map fst example_palette \<and>
   list_all (\<lambda>(name, data). \<exists>v. obj_get [(''Red'', 0), (''Blue'', 0)] name = Some v \<and> 0 \<le> v \<and> v \<le> cd_count data)
     example_palette"
  using mapToColours_stock_bounds [OF _ _ _ _ example_run] example_palette_facts example_order by simp

lemma mapToColours_usage_witness:
  "list_all (\<lambda>(name, data). obj_get [(''Red'', 0::int), (''Blue'', 0)] name
      = Some (cd_count data - int (count_list (concat [[''Blue'', ''Out of Stock''], [''Red'', ''Out of Stock'']]) name)))
     example_palette"
  using mapToColours_usage [OF _ _ _ _ _ example_run] example_palette_facts example_order by simp

lemma mapToColours_total_used_witness:
  "total_stock example_palette - sum_list (map snd [(''Red'', 0::int), (''Blue'', 0)])
     = int (length (filter (\<lambda>x. x \<noteq> OUT_OF_STOCK) (concat [[''Blue'', ''Out of Stock''], [''Red'', ''Out of Stock'']])))"
  using mapToColours_total_used [OF _ _ _ _ _ example_run] example_palette_facts example_order by simp

lemma mapToColours_exhaustion_witness:
  "concat [[''Blue'', ''Out of Stock''], [''Red'', ''Out of Stock'']] ! ([2, 0, 1, 3] ! 2) = OUT_OF_STOCK"
proof -
  have "concat [[''Blue'', ''Out of Stock''], [''Red'', ''Out of Stock'']] ! ([2, 0, 1, 3] ! 2) \<noteq> OUT_OF_STOCK
        \<longleftrightarrow> int 2 < total_stock example_palette"
    using example_palette_facts example_order
    by (intro mapToColours_exhaustion [OF _ _ _ _ _ _ example_run]) simp_all
  then show ?thesis by (simp add: total_stock_def example_palette_def)
qed

lemma mapToColours_pixels_witness:
  "list_all (\<lambda>i. (concat [[''Blue'', ''Out of Stock''], [''Red'', ''Out of Stock'']] ! i = OUT_OF_STOCK \<and>
        ([0, 0, 255, 0, 0, 0, 255, 0, 0, 0, 0, 0::u8] ! (3 * i), [0, 0, 255, 0, 0, 0, 255, 0, 0, 0, 0, 0::u8] ! (3 * i + 1),
         [0, 0, 255, 0, 0, 0, 255, 0, 0, 0, 0, 0::u8] ! (3 * i + 2)) = black)
      \<or> obj_get (rgb_values example_palette) (concat [[''Blue'', ''Out of Stock''], [''Red'', ''Out of Stock'']] ! i)
          = Some ([0, 0, 255, 0, 0, 0, 255, 0, 0, 0, 0, 0::u8] ! (3 * i), [0, 0, 255, 0, 0, 0, 255, 0, 0, 0, 0, 0::u8] ! (3 * i + 1),
                  [0, 0, 255, 0, 0, 0, 255, 0, 0, 0, 0, 0::u8] ! (3 * i + 2)))
     [0..<length [(255, 0, 0), (0, 0, 255), (250, 5, 5), (0, 0, 0)]]"
  using mapToColours_pixels [OF _ _ _ _ _ example_run] example_palette_facts example_order by simp

end
