(* ===== verification/Assembler.thy ===== *)
theory Assembler
  imports Matcher_Loop
begin

text \<open>
  The mosaic assembler of \<open>src/script.js\<close>: the RGBA conversion inside
  \<open>runGeneration\<close> (lines 206--218) and \<open>generateSummary\<close> (lines 229--244).
  \<^item> \<open>to_rgba\<close> starts from \<open>createImageData\<close> (all bytes 0) and, for every pixel
    \<open>i < TARGET_SIZE * TARGET_SIZE\<close>, copies bytes \<open>3i .. 3i+2\<close> of the core image to
    \<open>4i .. 4i+2\<close> and sets alpha \<open>4i+3\<close> to 255. Reading past the end of the
    \<open>Uint8ClampedArray\<close> gives \<open>undefined\<close>, which the target array stores as 0
    (\<open>u8_at\<close>).
  \<^item> \<open>summary_loop\<close> is the \<open>for (const name in ORIGINAL_COUNTS)\<close> loop: it adds
    \<open>used = original - remaining\<close> to \<open>totalUsed\<close> and keeps a row when
    \<open>used > 0 || remaining < original\<close>. A name missing from the final counts would
    make \<open>totalUsed\<close> \<open>NaN\<close>; \<open>totalUsed\<close> is an \<open>int option\<close> with \<open>None\<close>
    for \<open>NaN\<close>. The HTML string built from the rows (lines 246--270) is presentation and
    is not modelled.
  The lemmas show that the RGBA buffer is the core image with an opaque alpha channel,
  and that the summary's total is the number of assigned pixels with one row per colour
  actually used, in palette order.
\<close>

definition u8_at :: "u8 list \<Rightarrow> nat \<Rightarrow> u8" where
  "u8_at xs i = (if i < length xs then xs ! i else 0)"

definition rgba_copy :: "u8 list \<Rightarrow> u8 list \<Rightarrow> nat \<Rightarrow> u8 list" where
  "rgba_copy coreImageArray data i =
     (let srcIdx = i * 3; destIdx = i * 4
      in data[destIdx := u8_at coreImageArray srcIdx,
              destIdx + 1 := u8_at coreImageArray (srcIdx + 1),
              destIdx + 2 := u8_at coreImageArray (srcIdx + 2),
              destIdx + 3 := 255])"

definition to_rgba :: "nat \<Rightarrow> u8 list \<Rightarrow> u8 list" where
  "to_rgba targetSize coreImageArray =
     fold (\<lambda>i data. rgba_copy coreImageArray data i) [0..<targetSize * targetSize]
       (replicate (4 * (targetSize * targetSize)) 0)"

record summary_row =
  row_name :: string
  row_used :: int
  row_remaining :: int
  row_original :: int

fun summary_loop ::
  "int js_object \<Rightarrow> int js_object \<Rightarrow> int option \<Rightarrow> summary_row list \<Rightarrow> int option \<times> summary_row list"
where
  "summary_loop [] finalRemaining totalUsed summaryData = (totalUsed, summaryData)"
| "summary_loop ((name, original) # origs) finalRemaining totalUsed summaryData =
     (case obj_get finalRemaining name of
        None \<Rightarrow> summary_loop origs finalRemaining None summaryData
      | Some remaining \<Rightarrow>
          (let used = original - remaining
           in summary_loop origs finalRemaining (map_option (\<lambda>t. t + used) totalUsed)
                (if 0 < used \<or> remaining < original
                 then summaryData @ [\<lparr>row_name = name, row_used = used,
                                     row_remaining = remaining, row_original = original\<rparr>]
                 else summaryData)))"

definition generateSummary :: "palette \<Rightarrow> int js_object \<Rightarrow> int option \<times> summary_row list" where
  "generateSummary pal finalRemaining = summary_loop (original_counts pal) finalRemaining (Some 0) []"

text \<open>The reference for \<open>to_rgba\<close>: each RGB triple followed by an opaque alpha.\<close>

definition rgba_of :: "rgb list \<Rightarrow> u8 list" where
  "rgba_of img = concat (map (\<lambda>(r, g, b). [r, g, b, 255]) img)"

definition rgba_px :: "u8 list \<Rightarrow> nat \<Rightarrow> u8 list" where
  "rgba_px core i = [u8_at core (i * 3), u8_at core (i * 3 + 1), u8_at core (i * 3 + 2), 255]"

text \<open>The rows \<open>generateSummary\<close> reports when every name has a final count: the colours
  whose remaining count is below the original, in palette order.\<close>

definition summary_rows :: "int js_object \<Rightarrow> int js_object \<Rightarrow> summary_row list" where
  "summary_rows origs fr =
     map (\<lambda>(name, original). let remaining = the (obj_get fr name) in
            \<lparr>row_name = name, row_used = original - remaining, row_remaining = remaining, row_original = original\<rparr>)
       (filter (\<lambda>(name, original). the (obj_get fr name) < original) origs)"

section \<open>The RGBA conversion\<close>

lemma drop_four:
  "k + 4 \<le> length xs \<Longrightarrow>
   drop k xs = xs ! k # xs ! Suc k # xs ! Suc (Suc k) # xs ! Suc (Suc (Suc k)) # drop (Suc (Suc (Suc (Suc k)))) xs"
  by (simp add: Cons_nth_drop_Suc)

lemma rgba_copy_split:
  assumes "i * 4 + 4 \<le> length data"
  shows "rgba_copy core data i = take (i * 4) data @ rgba_px core i @ drop (i * 4 + 4) data"
proof -
  obtain pre x0 x1 x2 x3 rest where d: "data = pre @ x0 # x1 # x2 # x3 # rest" and l: "length pre = i * 4"
  proof
    show "data = take (i * 4) data @ data ! (i * 4) # data ! Suc (i * 4) # data ! Suc (Suc (i * 4)) #
      data ! Suc (Suc (Suc (i * 4))) # drop (Suc (Suc (Suc (Suc (i * 4))))) data"
      using drop_four [OF assms] by (metis append_take_drop_id)
    show "length (take (i * 4) data) = i * 4" using assms by simp
  qed
  show ?thesis
    unfolding rgba_copy_def rgba_px_def Let_def d
    using l by (simp add: list_update_append)
qed

lemma fold_rgba_copy:
  "m * 4 \<le> length data \<Longrightarrow>
   fold (\<lambda>i data. rgba_copy core data i) [0..<m] data = concat (map (rgba_px core) [0..<m]) @ drop (m * 4) data"
proof (induction m)
  case 0 then show ?case by simp
next
  case (Suc m)
  let ?d = "fold (\<lambda>i data. rgba_copy core data i) [0..<m] data"
  have l: "length (concat (map (rgba_px core) [0..<m])) = m * 4"
    by (induction m) (simp_all add: rgba_px_def)
  have "?d = concat (map (rgba_px core) [0..<m]) @ drop (m * 4) data" using Suc by simp
  moreover have "m * 4 + 4 \<le> length ?d" using Suc.prems l calculation by simp
  ultimately show ?case
    using l by (simp add: rgba_copy_split)
qed

lemma to_rgba_closed:
  "to_rgba targetSize coreImageArray = concat (map (rgba_px coreImageArray) [0..<targetSize * targetSize])"
  unfolding to_rgba_def by (subst fold_rgba_copy) simp_all

lemma length_rgba_px_concat: "length (concat (map (rgba_px c) xs)) = 4 * length xs"
  by (induction xs) (simp_all add: rgba_px_def)

lemma length_to_rgba: "length (to_rgba targetSize c) = 4 * (targetSize * targetSize)"
  by (simp add: to_rgba_closed length_rgba_px_concat)

lemma length_rgba_of: "length (rgba_of img) = 4 * length img"
  by (induction img) (auto simp: rgba_of_def)

lemma rgba_px_flat:
  "i < length img \<Longrightarrow> rgba_px (flat_rgb img) i = (case img ! i of (r, g, b) \<Rightarrow> [r, g, b, 255])"
  using nth_flat_rgb [of i img]
  by (auto simp: rgba_px_def u8_at_def length_flat_rgb mult.commute split: prod.splits)

lemma rgba_of_map: "rgba_of img = concat (map (\<lambda>i. case img ! i of (r, g, b) \<Rightarrow> [r, g, b, 255]) [0..<length img])"
  unfolding rgba_of_def by (subst map_nth [symmetric, of img]) (simp only: map_map comp_def)

text \<open>C20: for a core image of \<open>N * N\<close> pixels, the RGBA buffer \<open>runGeneration\<close> puts on the mosaic canvas is the image with an opaque alpha byte after each pixel.\<close>

theorem to_rgba_flat:
  "length img = targetSize * targetSize \<Longrightarrow> to_rgba targetSize (flat_rgb img) = rgba_of img"
proof -
  assume "length img = targetSize * targetSize"
  then have "map (rgba_px (flat_rgb img)) [0..<targetSize * targetSize] =
      map (\<lambda>i. case img ! i of (r, g, b) \<Rightarrow> [r, g, b, 255]) [0..<length img]"
    by (simp add: rgba_px_flat)
  then show ?thesis by (simp add: to_rgba_closed rgba_of_map)
qed

section \<open>The summary\<close>

lemma summary_loop_None: "fst (summary_loop origs fr None acc) = None"
  by (induction origs arbitrary: acc) (auto split: option.splits)

lemma summary_loop_closed:
  "list_all (\<lambda>(name, _). obj_get fr name \<noteq> None) origs \<Longrightarrow>
   summary_loop origs fr t acc =
     (map_option (\<lambda>x. x + sum_list (map (\<lambda>(name, original). original - the (obj_get fr name)) origs)) t,
      acc @ summary_rows origs fr)"
proof (induction origs arbitrary: t acc)
  case Nil then show ?case by (simp add: summary_rows_def option.map_ident)
next
  case (Cons p origs)
  obtain name original where p: "p = (name, original)" by (cases p)
  from Cons.prems p obtain r where r: "obj_get fr name = Some r" by auto
  have lt: "(0 < original - r \<or> r < original) \<longleftrightarrow> r < original" by arith
  show ?case
    using Cons r lt by (simp add: p summary_rows_def option.map_comp comp_def algebra_simps)
qed

lemma summary_loop_missing:
  "\<not> list_all (\<lambda>(name, _). obj_get fr name \<noteq> None) origs \<Longrightarrow> fst (summary_loop origs fr t acc) = None"
  by (induction origs arbitrary: t acc) (auto simp: summary_loop_None Let_def split: option.splits)

lemma keys_present:
  assumes "palette_wf pal" and "map fst fr = map fst pal"
  shows "list_all (\<lambda>(name, _). obj_get fr name \<noteq> None) (original_counts pal)"
proof -
  have "fst ` set fr = fst ` set pal" using arg_cong [where f = set, OF assms(2)] by simp
  then show ?thesis using assms(1) by (force simp: list_all_iff obj_get_None_iff)
qed

lemma generateSummary_closed:
  assumes wf: "palette_wf pal" and keys: "map fst fr = map fst pal"
  shows "generateSummary pal fr = (Some (total_stock pal - sum_list (map snd fr)), summary_rows (original_counts pal) fr)"
proof -
  have d: "distinct (map fst fr)" using wf keys by (simp add: palette_wf_def)
  have "sum_list (map (\<lambda>(name, original). original - the (obj_get fr name)) (original_counts pal)) =
        sum_list (map snd (original_counts pal)) - sum_list (map (\<lambda>k. the (obj_get fr k)) (map fst (original_counts pal)))"
    by (simp add: sum_list_subtractf case_prod_unfold comp_def)
  also have "map fst (original_counts pal) = map fst fr" using wf keys by (simp add: case_prod_unfold)
  also have "map (\<lambda>k. the (obj_get fr k)) (map fst fr) = map snd fr" by (rule obj_get_keys [OF d])
  also have "sum_list (map snd (original_counts pal)) = total_stock pal"
    using wf by (simp add: total_stock_def case_prod_unfold comp_def)
  finally have "sum_list (map (\<lambda>(name, original). original - the (obj_get fr name)) (original_counts pal)) =
      total_stock pal - sum_list (map snd fr)" .
  then show ?thesis
    using keys_present [OF wf keys] by (simp add: generateSummary_def summary_loop_closed)
qed

text \<open>C21: when the final counts have exactly the palette's names, \<open>totalUsed\<close> is the total original stock minus the total remaining.\<close>

theorem generateSummary_total:
  assumes wf: "palette_wf pal" and keys: "map fst fr = map fst pal"
  shows "fst (generateSummary pal fr) = Some (total_stock pal - sum_list (map snd fr))"
  by (simp add: generateSummary_closed [OF wf keys])

text \<open>C22: a palette name missing from the final counts makes \<open>totalUsed\<close> \<open>NaN\<close>
  (\<open>original - undefined\<close>), and it stays \<open>NaN\<close> whatever the other names hold.\<close>

theorem generateSummary_missing:
  assumes "(name, data) \<in> set pal" and "palette_wf pal" and "obj_get fr name = None"
  shows "fst (generateSummary pal fr) = None"
proof -
  have "\<not> list_all (\<lambda>(name, _). obj_get fr name \<noteq> None) (original_counts pal)"
    using assms by (force simp: list_all_iff)
  then show ?thesis by (simp add: generateSummary_def summary_loop_missing)
qed

section \<open>Witnesses\<close>

lemma to_rgba_flat_witness: "to_rgba 1 (flat_rgb [(1, 2, 3)]) = [1, 2, 3, 255]"
  using to_rgba_flat [of "[(1, 2, 3)]" 1] by (simp add: rgba_of_def)

lemma generateSummary_total_witness:
  "fst (generateSummary example_palette [(''Red'', 0), (''Blue'', 1)]) = Some 1"
  using generateSummary_total [of example_palette "[(''Red'', 0), (''Blue'', 1)]"]
  by (simp add: example_palette_def palette_wf_def total_stock_def)

lemma generateSummary_missing_witness: "fst (generateSummary example_palette [(''Red'', 0)]) = None"
  using generateSummary_missing [of "''Blue''" "\<lparr>cd_rgb = (0, 0, 255), cd_count = 1\<rparr>" example_palette "[(''Red'', 0)]"]
  by (simp add: example_palette_def palette_wf_def obj_get_def)

end
