(* ===== verification/Summary_Html.thy ===== *)
theory Summary_Html
  imports Assembler
begin

text \<open>
  The HTML string \<open>generateSummary\<close> writes into \<open>summaryOutput.innerHTML\<close>
  (\<open>src/script.js\<close> lines 246--270), character for character, and the conversion of numbers
  inside template literals. A JavaScript integer-valued number prints in decimal with a
  leading \<open>-\<close> when negative (\<open>js_int_str\<close>); \<open>NaN\<close>, the \<open>None\<close> of \<open>totalUsed\<close>, prints as
  \<open>NaN\<close> (\<open>js_num_str\<close>). The template literals' line breaks and indentation are kept:
  \<open>html_line n s\<close> is a line break, \<open>n\<close> spaces and \<open>s\<close>.
\<close>

fun dec_digits :: "nat \<Rightarrow> string" where
  "dec_digits n = (if n < 10 then [char_of (48 + n)] else dec_digits (n div 10) @ [char_of (48 + n mod 10)])"

declare dec_digits.simps [simp del]

definition js_int_str :: "int \<Rightarrow> string" where
  "js_int_str i = (if i < 0 then CHR ''-'' # dec_digits (nat (- i)) else dec_digits (nat i))"

definition js_num_str :: "int option \<Rightarrow> string" where
  "js_num_str v = (case v of None \<Rightarrow> ''NaN'' | Some i \<Rightarrow> js_int_str i)"

definition html_line :: "nat \<Rightarrow> string \<Rightarrow> string" where
  "html_line n s = CHR 0x0A # replicate n CHR '' '' @ s"

definition summary_header :: "int option \<Rightarrow> nat \<Rightarrow> string" where
  "summary_header totalUsed targetSize =
     html_line 12 ''<div class=\"py-2 border-b border-gray-200\">'' @
     html_line 16 (''<span class=\"font-bold text-gray-800\">Total PIXELS used: '' @ js_num_str totalUsed @ ''</span>'') @
     html_line 16 (''<span class=\"text-xs text-gray-500 block\">('' @ js_int_str (int (targetSize * targetSize)) @
                   '' pixels needed for core image)</span>'') @
     html_line 12 ''</div>'' @
     html_line 12 ''<div class=\"grid grid-cols-4 font-bold text-gray-700 mt-2\">'' @
     html_line 16 ''<div>COLOR</div>'' @
     html_line 16 ''<div class=\"text-right\">USED| </div>'' @
     html_line 16 ''<div class=\"text-right\">REMAINING| </div>'' @
     html_line 16 ''<div class=\"text-right\">ORIGINAL </div>'' @
     html_line 12 ''</div>'' @
     html_line 8 []"

definition summary_item_html :: "summary_row \<Rightarrow> string" where
  "summary_item_html item =
     html_line 16 ''<div class=\"grid grid-cols-4 mt-1 border-b border-dashed border-gray-100\">'' @
     html_line 20 (''<div class=\"truncate\">'' @ row_name item @ ''</div>'') @
     html_line 20 (''<div class=\"text-right text-red-600\">'' @ js_int_str (row_used item) @ ''</div>'') @
     html_line 20 (''<div class=\"text-right text-green-600\">'' @ js_int_str (row_remaining item) @ ''</div>'') @
     html_line 20 (''<div class=\"text-right\">'' @ js_int_str (row_original item) @ ''</div>'') @
     html_line 16 ''</div>'' @
     html_line 12 []"

text \<open>\<open>let html\<close> starts empty; the header is appended, then one block per row by
  \<open>summaryData.forEach(item => { html += ... })\<close>.\<close>

definition summary_html :: "int option \<Rightarrow> nat \<Rightarrow> summary_row list \<Rightarrow> string" where
  "summary_html totalUsed targetSize summaryData =
     fold (\<lambda>item html. html @ summary_item_html item) summaryData ([] @ summary_header totalUsed targetSize)"

text \<open>The whole of \<open>generateSummary(finalRemaining)\<close>: the loop, then the HTML.\<close>

definition generateSummary_html :: "palette \<Rightarrow> nat \<Rightarrow> int js_object \<Rightarrow> string" where
  "generateSummary_html pal targetSize finalRemaining =
     (case generateSummary pal finalRemaining of
        (totalUsed, summaryData) \<Rightarrow> summary_html totalUsed targetSize summaryData)"

text \<open>Reading numbers back: decimal digits with an optional minus sign, and \<open>NaN\<close>.\<close>

definition digit_val :: "char \<Rightarrow> nat option" where
  "digit_val c = (let n = of_char c :: nat in if 48 \<le> n \<and> n \<le> 57 then Some (n - 48) else None)"

fun parse_digits :: "nat \<Rightarrow> string \<Rightarrow> nat option" where
  "parse_digits acc [] = Some acc"
| "parse_digits acc (c # cs) = (case digit_val c of None \<Rightarrow> None | Some d \<Rightarrow> parse_digits (10 * acc + d) cs)"

definition parse_js_int :: "string \<Rightarrow> int option" where
  "parse_js_int s =
     (case s of
        [] \<Rightarrow> None
      | c # cs \<Rightarrow> if c = CHR ''-'' then (if cs = [] then None else map_option (\<lambda>n. - int n) (parse_digits 0 cs))
                 else map_option int (parse_digits 0 s))"

definition parse_js_num :: "string \<Rightarrow> int option option" where
  "parse_js_num s = (if s = ''NaN'' then Some None else map_option Some (parse_js_int s))"

text \<open>The text before the total in the summary, and the field a reader takes after it: the
  characters up to the next \<open><\<close>.\<close>

definition total_prefix :: string where
  "total_prefix =
     html_line 12 ''<div class=\"py-2 border-b border-gray-200\">'' @
     html_line 16 ''<span class=\"font-bold text-gray-800\">Total PIXELS used: ''"

definition read_total_field :: "string \<Rightarrow> string option" where
  "read_total_field html =
     (if take (length total_prefix) html = total_prefix
      then Some (takeWhile (\<lambda>c. c \<noteq> CHR ''<'') (drop (length total_prefix) html))
      else None)"

section \<open>Lemmas\<close>

lemma dec_digits_ne: "dec_digits n \<noteq> []"
  by (subst dec_digits.simps) simp

lemma digit_val_char: "d < 10 \<Longrightarrow> digit_val (char_of (48 + d)) = Some d"
  by (simp add: digit_val_def Let_def of_char_of)

lemma parse_digits_append:
  "parse_digits acc (xs @ ys) = (case parse_digits acc xs of None \<Rightarrow> None | Some a \<Rightarrow> parse_digits a ys)"
  by (induction acc xs rule: parse_digits.induct) (auto split: option.splits)

lemma parse_dec_digits: "parse_digits 0 (dec_digits n) = Some n"
proof (induction n rule: dec_digits.induct)
  case (1 n)
  show ?case
  proof (cases "n < 10")
    case True
    then show ?thesis by (subst dec_digits.simps) (simp add: digit_val_char)
  next
    case False
    then show ?thesis using 1
      by (subst dec_digits.simps) (simp add: parse_digits_append digit_val_char)
  qed
qed

lemma dec_digits_chars: "\<forall>c \<in> set (dec_digits n). digit_val c \<noteq> None"
proof (induction n rule: dec_digits.induct)
  case (1 n)
  then show ?case by (subst dec_digits.simps) (auto simp: digit_val_char)
qed

lemma dec_digits_not_minus: "CHR ''-'' \<notin> set (dec_digits n)"
  and dec_digits_not_lt: "CHR ''<'' \<notin> set (dec_digits n)"
  using dec_digits_chars [of n] by (auto simp: digit_val_def)

lemma js_int_str_chars: "\<forall>c \<in> set (js_int_str i). c = CHR ''-'' \<or> digit_val c \<noteq> None"
  using dec_digits_chars by (simp add: js_int_str_def)

lemma js_num_str_no_lt: "CHR ''<'' \<notin> set (js_num_str v)"
  using js_int_str_chars by (force simp: js_num_str_def digit_val_def split: option.splits)

lemma js_int_str_not_NaN: "js_int_str i \<noteq> ''NaN''"
proof
  assume "js_int_str i = ''NaN''"
  then have "CHR ''N'' \<in> set (js_int_str i)" by simp
  then have "CHR ''N'' = CHR ''-'' \<or> digit_val (CHR ''N'') \<noteq> None"
    using js_int_str_chars [of i] by blast
  then show False by (simp add: digit_val_def)
qed

lemma parse_js_int_str: "parse_js_int (js_int_str i) = Some i"
proof (cases "i < 0")
  case True
  then show ?thesis
    using dec_digits_ne [of "nat (- i)"]
    by (simp add: js_int_str_def parse_js_int_def parse_dec_digits)
next
  case False
  obtain c cs where d: "dec_digits (nat i) = c # cs"
    using dec_digits_ne by (cases "dec_digits (nat i)") auto
  have "c \<noteq> CHR ''-''" using dec_digits_not_minus [of "nat i"] d by auto
  then show ?thesis
    using False parse_dec_digits [of "nat i"] d
    by (simp add: js_int_str_def parse_js_int_def)
qed

lemma fold_append_html:
  "fold (\<lambda>item html. html @ f item) xs h = h @ concat (map f xs)"
  by (induction xs arbitrary: h) simp_all

lemma summary_html_split:
  "\<exists>rest. summary_html totalUsed targetSize summaryData = total_prefix @ js_num_str totalUsed @ ''</span>'' @ rest"
  by (simp add: summary_html_def fold_append_html summary_header_def total_prefix_def html_line_def)

lemma read_total_field_prefix:
  "read_total_field (total_prefix @ js_num_str v @ ''</span>'' @ rest) = Some (js_num_str v)"
proof -
  have "takeWhile (\<lambda>c. c \<noteq> CHR ''<'') (js_num_str v @ ''</span>'' @ rest) = js_num_str v"
    using js_num_str_no_lt [of v] by (subst takeWhile_append2) auto
  then show ?thesis by (simp add: read_total_field_def)
qed

lemma read_parse_total:
  "map_option parse_js_num (read_total_field (summary_html totalUsed targetSize summaryData)) = Some (Some totalUsed)"
proof -
  obtain rest where
    "summary_html totalUsed targetSize summaryData = total_prefix @ js_num_str totalUsed @ ''</span>'' @ rest"
    using summary_html_split by blast
  then have "read_total_field (summary_html totalUsed targetSize summaryData) = Some (js_num_str totalUsed)"
    by (simp only: read_total_field_prefix)
  then show ?thesis
    by (cases totalUsed) (simp_all add: js_num_str_def parse_js_num_def js_int_str_not_NaN parse_js_int_str)
qed



end
