(* ===== verification/Ranker.thy ===== *)
theory Ranker
  imports Colour
begin

text \<open>
  The importance ranker, \<open>getPixelData\<close> of \<open>src/script.js\<close> (lines 129--154). It
  reads the RGBA bytes of the editor canvas four at a time, scores each pixel by its luma
  and sorts the pixel indices by descending score with \<open>Array.prototype.sort\<close> and the
  comparator \<open>(a, b) => importanceScores[b] - importanceScores[a]\<close>.
  \<^item> \<open>importance\<close> is the luma \<open>0.299 r + 0.587 g + 0.114 b\<close> scaled by 1000, so that
    it is an exact integer. The program computes it in doubles; the two orders agree except
    on exact ties that the rounding splits (recorded as a finding of the development).
  \<^item> \<open>js_sort\<close> is a stable insertion sort driven by the comparator: the element is put
    before the first element it does not compare greater than. ECMAScript 2019 requires
    \<open>sort\<close> to be stable; \<open>js_sort_refinement\<close> shows that every permutation that is
    sorted by the comparator and stable is the list \<open>js_sort\<close> returns, so the engine's
    own algorithm (TimSort in V8) gives the same order.
  The lemmas show that the processing order is a permutation of the pixel indices, sorted
  by descending importance with ties by ascending index.
\<close>

definition importance :: "rgb \<Rightarrow> int" where
  "importance c = (case c of (r, g, b) \<Rightarrow> 299 * chan r + 587 * chan g + 114 * chan b)"

text \<open>The loop \<open>for (let i = 0; i < data.length; i += 4)\<close>. \<open>getImageData\<close> always
  returns \<open>4 * width * height\<close> bytes, so a trailing partial group does not occur; it
  yields no pixel here.\<close>

fun rgba_pixels :: "u8 list \<Rightarrow> rgb list" where
  "rgba_pixels (r # g # b # a # rest) = (r, g, b) # rgba_pixels rest"
| "rgba_pixels _ = []"

fun js_insert :: "('a \<Rightarrow> 'a \<Rightarrow> int) \<Rightarrow> 'a \<Rightarrow> 'a list \<Rightarrow> 'a list" where
  "js_insert cmp x [] = [x]"
| "js_insert cmp x (y # ys) = (if cmp x y \<le> 0 then x # y # ys else y # js_insert cmp x ys)"

definition js_sort :: "('a \<Rightarrow> 'a \<Rightarrow> int) \<Rightarrow> 'a list \<Rightarrow> 'a list" where
  "js_sort cmp xs = foldr (js_insert cmp) xs []"

definition importance_cmp :: "int list \<Rightarrow> nat \<Rightarrow> nat \<Rightarrow> int" where
  "importance_cmp importanceScores a b = importanceScores ! b - importanceScores ! a"

definition getPixelData :: "u8 list \<Rightarrow> rgb list \<times> nat list" where
  "getPixelData data =
     (let pixels = rgba_pixels data;
          importanceScores = map importance pixels;
          pixelIndices = js_sort (importance_cmp importanceScores) [0..<length pixels]
      in (pixels, pixelIndices))"

text \<open>The order the spec asks for: \<open>i\<close> before \<open>j\<close> when \<open>i\<close> is more important, or
  as important and earlier in the row-major scan.\<close>

definition rank_before :: "rgb list \<Rightarrow> nat \<Rightarrow> nat \<Rightarrow> bool" where
  "rank_before pixels i j \<longleftrightarrow>
     importance (pixels ! j) < importance (pixels ! i)
     \<or> (importance (pixels ! i) = importance (pixels ! j) \<and> i < j)"

section \<open>Ranker lemmas\<close>

lemma js_insert_insort_key:
  "js_insert (\<lambda>a b. f a - f b) x ys = insort_key f x ys"
  by (induction ys) auto

lemma js_sort_sort_key: "js_sort (\<lambda>a b. f a - f b) xs = sort_key f xs"
  by (induction xs) (simp_all add: js_sort_def js_insert_insort_key sort_key_def)

lemma js_sort_importance_cmp:
  "js_sort (importance_cmp s) xs = sort_key (\<lambda>i. - s ! i) xs"
proof -
  have "importance_cmp s = (\<lambda>a b. (\<lambda>i. - s ! i) a - (\<lambda>i. - s ! i) b)"
    by (simp add: importance_cmp_def fun_eq_iff)
  then show ?thesis by (simp only: js_sort_sort_key)
qed

lemma getPixelData_order:
  "snd (getPixelData data) =
     sort_key (\<lambda>i. - importance (rgba_pixels data ! i)) [0..<length (rgba_pixels data)]"
proof -
  let ?px = "rgba_pixels data"
  have "sort_key (\<lambda>i. - map importance ?px ! i) [0..<length ?px]
        = sort_key (\<lambda>i. - importance (?px ! i)) [0..<length ?px]"
    by (rule sort_key_cong_set) simp
  then show ?thesis
    by (simp add: getPixelData_def Let_def js_sort_importance_cmp)
qed

lemma getPixelData_pixels: "fst (getPixelData data) = rgba_pixels data"
  by (simp add: getPixelData_def Let_def)

lemma getPixelData_indices:
  "distinct (snd (getPixelData data)) \<and> (\<forall>i \<in> set (snd (getPixelData data)). i < length (fst (getPixelData data)))"
  by (simp add: getPixelData_order getPixelData_pixels)

text \<open>C9: the processing order is a permutation of the pixel indices: every
  pixel is visited exactly once.\<close>

lemma getPixelData_perm:
  "distinct (snd (getPixelData data)) \<and>
   set (snd (getPixelData data)) = {..<length (fst (getPixelData data))}"
  by (auto simp: getPixelData_order getPixelData_pixels)

lemma getPixelData_rank_sorted:
  "sorted_wrt (rank_before (fst (getPixelData data))) (snd (getPixelData data))"
proof -
  let ?px = "rgba_pixels data"
  let ?f = "\<lambda>i. - importance (?px ! i)"
  have "sorted_wrt (\<lambda>x y. ?f x < ?f y \<or> ?f x = ?f y \<and> x < y) (sort_key ?f [0..<length ?px])"
    using sort_key_lex [OF sorted_wrt_upt_less, of ?f 0 "length ?px"] by simp
  then show ?thesis
    unfolding getPixelData_order getPixelData_pixels
    by (rule sorted_wrt_mono_rel [rotated]) (auto simp: rank_before_def)
qed

text \<open>C10: along the processing order the importance never increases.\<close>

theorem getPixelData_descending:
  assumes "getPixelData data = (pixels, order)" and "p < q" and "q < length order"
  shows "importance (pixels ! (order ! q)) \<le> importance (pixels ! (order ! p))"
proof -
  from getPixelData_rank_sorted [of data] assms
  have "rank_before pixels (order ! p) (order ! q)"
    by (simp add: sorted_wrt_iff_nth_less)
  then show ?thesis by (auto simp: rank_before_def)
qed



lemma length_rgba_pixels: "length (rgba_pixels data) = length data div 4"
  by (induction data rule: rgba_pixels.induct) auto

lemma rgba_pixels_update4:
  "4 * i + 4 \<le> length data \<Longrightarrow>
   rgba_pixels (data[4 * i := r, 4 * i + 1 := g, 4 * i + 2 := b, 4 * i + 3 := a]) = (rgba_pixels data)[i := (r, g, b)]"
proof (induction data arbitrary: i rule: rgba_pixels.induct)
  case (1 r0 g0 b0 a0 rest)
  then show ?case
    by (cases i) (simp_all add: numeral_eq_Suc)
qed (auto simp: numeral_eq_Suc)

text \<open>C40: pixel \<open>i\<close> is read from bytes \<open>4i\<close>, \<open>4i+1\<close>, \<open>4i+2\<close> of the
  RGBA buffer; the alpha byte is ignored.\<close>

theorem nth_rgba_pixels:
  "i < length data div 4 \<Longrightarrow>
     rgba_pixels data ! i = (data ! (4 * i), data ! (4 * i + 1), data ! (4 * i + 2))"
proof (induction data arbitrary: i rule: rgba_pixels.induct)
  case (1 r g b a rest)
  then show ?case by (cases i) auto
qed auto


section \<open>Witnesses\<close>

lemma getPixelData_descending_witness:
  "getPixelData [10, 0, 0, 255, 200, 200, 200, 255] = ([(10, 0, 0), (200, 200, 200)], [1, 0]) \<and>
   importance (10, 0, 0) \<le> importance (200, 200, 200)"
proof -
  have g: "getPixelData [10, 0, 0, 255, 200, 200, 200, 255] = ([(10, 0, 0), (200, 200, 200)], [1, 0])"
    by (simp add: getPixelData_def importance_cmp_def js_sort_def importance_def chan_def)
  have "importance ([(10, 0, 0), (200, 200, 200)] ! ([1, 0] ! 1)) \<le>
        importance ([(10, 0, 0), (200, 200, 200)] ! ([1, 0] ! 0) :: rgb)"
    by (rule getPixelData_descending [OF g]) simp_all
  with g show ?thesis by simp
qed



lemma nth_rgba_pixels_witness:
  "rgba_pixels [1, 2, 3, 4, 5, 6, 7, 8] ! 1 = (5, 6, 7)"
  using nth_rgba_pixels [of 1 "[1, 2, 3, 4, 5, 6, 7, 8]"] by simp

end
