(* ===== verification/App.thy ===== *)
theory App
  imports Summary_Html Ranker
begin

text \<open>
  The page of \<open>src/script.js\<close> as an event-driven state machine: the variables of the
  \<open>DOMContentLoaded\<close> closure and the canvas and element contents the handlers write are the
  fields of \<open>app_state\<close>; each listener of lines 273--344 is a case of \<open>app_step_dom\<close>, with
  \<open>drawPixel\<close> (lines 112--125), \<open>runGeneration\<close> (lines 199--227) and the mosaic hover
  handler (lines 323--343) as their own definitions. \<open>app_init\<close> is the state after the
  set-up code (lines 43--53 and 346--354).
  \<^item> Canvases are their RGBA byte arrays (\<open>getImageData\<close> of the whole canvas): the editor and
    the mosaic canvas are \<open>TARGET_SIZE\<close> square.
  \<^item> Mouse coordinates are rationals: \<open>Math.floor((clientX - left) * (size / width))\<close> is
    computed exactly (the double rounding of the product is not modelled); a zero width makes
    the scale \<open>Infinity\<close> and the coordinate \<open>Infinity\<close>, \<open>-Infinity\<close> or \<open>NaN\<close>,
    none of which passes the range test, which \<open>pointer_cell\<close> writes as \<open>None\<close>.
  \<^item> \<open>fillStyle\<close> keeps its old value when it is assigned an invalid colour string: the
    template \<open>rgb(NaN, ...)\<close> that \<open>hexToRgb\<close> gives for a malformed hex string is ignored
    (\<open>css_rgb\<close> is \<open>None\<close>); CSS clamps integer channels to 0..255.
  \<^item> A handler's outcome is \<open>(js_error + app_state) option\<close>: \<open>None\<close> when it does not return
    (the reshape loop of \<open>mapToColours\<close> for size 0), \<open>Inl\<close> when it throws (reading
    \<open>finalColorNameMap[y][x]\<close> of a missing row), \<open>Inr\<close> the next state.
  \<^item> \<open>loadImage\<close> (lines 88--109) starts an asynchronous load: \<open>pendingLoads\<close> lists the files
    whose \<open>FileReader\<close>/\<open>Image\<close> callbacks are still to come. The browser later delivers
    \<open>ImageLoaded f data\<close> (\<open>img.onload\<close>: draw and re-enable the button) or, when reading or
    decoding fails, \<open>LoadFailed f\<close>, for which the script has no handler. Decoding and
    resampling are the external Raster Source: \<open>data\<close> is the editor canvas content that
    \<open>drawImage\<close> leaves, of the canvas's size. \<open>event_ok\<close> says which events the browser can
    deliver in a state.
  \<^item> \<open>summaryOutput\<close> is kept as a view (\<open>summary_view\<close>); \<open>summary_text\<close> is the element's
    content for it, the summary HTML of \<open>Summary_Html\<close> after a run.
  \<^item> Element contents the HTML file sets before the script runs are \<open>None\<close> (that file is
    not in the repository), and the button's initial \<open>disabled\<close> flag is a parameter. The
    file-name display's class list is the HTML's list with \<open>fileNameClasses\<close> applied.
  \<^item> Which elements the page has is \<open>dom_elements\<close>: \<open>page_setup\<close> is the set-up code, which
    throws for a missing canvas or resolution display, \<open>app_step_dom\<close> the listeners with
    the script's \<open>if (element)\<close> guards and its unguarded writes, and \<open>dom_listener\<close> the
    listeners registered. \<open>app_step\<close> is the page with every element present, which the
    HTML file is written for.
\<close>

datatype js_error = TypeError string

text \<open>\<open>classList.add\<close> and \<open>classList.remove\<close> on an element: its class list is the list the
  HTML gives with these operations applied in order.\<close>

datatype class_op = ClassAdd string | ClassRemove string

datatype summary_view = Placeholder | Generating | Summary "int option" "summary_row list"

record app_state =
  editorData :: "u8 list"
  fillStyle :: rgb
  currentEditorColor :: js_rgb
  currentColourText :: "string option"
  isDrawing :: bool
  finalColorNameMap :: "string list list option"
  mosaicData :: "u8 list"
  summaryOutput :: summary_view
  hoverText :: "string option"
  generateDisabled :: bool
  fileNameText :: "string option"
  fileNameClasses :: "class_op list"
  resText :: string
  pendingLoads :: "string list"

record pointer =
  clientX :: rat
  clientY :: rat
  rect_left :: rat
  rect_top :: rat
  rect_width :: rat
  rect_height :: rat

datatype app_event =
    FileChange "string list"
  | ImageLoaded string "u8 list"
  | LoadFailed string
  | ColourInput string
  | EditorMouseDown pointer
  | EditorMouseMove pointer
  | EditorMouseUp
  | EditorMouseLeave
  | GenerateClick
  | MosaicMouseMove pointer

text \<open>Which of the elements that lines 29--41 look up by id the page has: \<open>getElementById\<close>
  gives \<open>null\<close> for a missing one. \<open>editorCtx\<close> and \<open>mosaicCtx\<close> are the contexts of the two
  canvases.\<close>

record dom_elements =
  has_fileInput :: bool
  has_editorCanvas :: bool
  has_mosaicCanvas :: bool
  has_generateButton :: bool
  has_summaryOutput :: bool
  has_colourPicker :: bool
  has_colourDisplay :: bool
  has_hoverInfo :: bool
  has_resDisplay :: bool
  has_fileNameDisplay :: bool

definition dom_full :: dom_elements where
  "dom_full =
     \<lparr>has_fileInput = True, has_editorCanvas = True, has_mosaicCanvas = True,
      has_generateButton = True, has_summaryOutput = True, has_colourPicker = True,
      has_colourDisplay = True, has_hoverInfo = True, has_resDisplay = True,
      has_fileNameDisplay = True\<rparr>"

text \<open>The errors of a property access on \<open>null\<close>.\<close>

definition null_read :: js_error where
  "null_read = TypeError ''Cannot read properties of null''"

definition null_write :: js_error where
  "null_write = TypeError ''Cannot set properties of null''"

text \<open>\<open>DOMTokenList\<close>: \<open>add\<close> appends a class that is absent, \<open>remove\<close> deletes it.\<close>

fun apply_class_op :: "class_op \<Rightarrow> string list \<Rightarrow> string list" where
  "apply_class_op (ClassAdd c) cs = (if c \<in> set cs then cs else cs @ [c])"
| "apply_class_op (ClassRemove c) cs = filter (\<lambda>d. d \<noteq> c) cs"

definition class_list :: "string list \<Rightarrow> class_op list \<Rightarrow> string list" where
  "class_list cs0 ops = fold apply_class_op ops cs0"

text \<open>The class changes of the file-name display for a chosen file (lines 283--284) and for
  none (lines 289--290).\<close>

definition file_chosen_classes :: "class_op list" where
  "file_chosen_classes = [ClassRemove ''text-gray-500'', ClassAdd ''text-indigo-600'']"

definition no_file_classes :: "class_op list" where
  "no_file_classes = [ClassAdd ''text-gray-500'', ClassRemove ''text-indigo-600'']"

text \<open>The placeholder grey \<open>#f3f4f6\<close> of the initial \<open>fillRect\<close>.\<close>

definition placeholder_grey :: rgb where
  "placeholder_grey = (243, 244, 246)"

definition app_init :: "nat \<Rightarrow> bool \<Rightarrow> app_state" where
  "app_init targetSize disabled0 =
     \<lparr>editorData = rgba_of (replicate (targetSize * targetSize) placeholder_grey),
      fillStyle = placeholder_grey,
      currentEditorColor = (Some 0, Some 0, Some 255),
      currentColourText = None,
      isDrawing = False,
      finalColorNameMap = None,
      mosaicData = replicate (4 * (targetSize * targetSize)) 0,
      summaryOutput = Placeholder,
      hoverText = None,
      generateDisabled = disabled0,
      fileNameText = None,
      fileNameClasses = [],
      resText = js_int_str (int targetSize) @ ''x'' @ js_int_str (int targetSize),
      pendingLoads = []\<rparr>"

text \<open>The set-up code of the \<open>DOMContentLoaded\<close> handler (lines 29--53 and 346--354) on a page
  with the elements \<open>els\<close>: \<open>editorCanvas.getContext\<close> (line 32), \<open>mosaicCanvas.getContext\<close>
  (line 34) and \<open>resDisplay.textContent\<close> (line 48) are not guarded, so a missing canvas or
  resolution display throws and no listener is registered; the later guards
  \<open>if (editorCtx)\<close> and \<open>if (summaryOutput)\<close> cover the rest.\<close>

definition page_setup :: "dom_elements \<Rightarrow> nat \<Rightarrow> bool \<Rightarrow> js_error + app_state" where
  "page_setup els targetSize disabled0 =
     (if \<not> has_editorCanvas els then Inl null_read
      else if \<not> has_mosaicCanvas els then Inl null_read
      else if \<not> has_resDisplay els then Inl null_write
      else Inr (app_init targetSize disabled0))"

text \<open>\<open>Math.floor((client - origin) * (size / extent))\<close>; \<open>None\<close> for a non-finite value.\<close>

definition pointer_cell :: "nat \<Rightarrow> rat \<Rightarrow> rat \<Rightarrow> rat \<Rightarrow> int option" where
  "pointer_cell targetSize origin extent client =
     (if extent = 0 then None else Some (floor ((client - origin) * (of_nat targetSize / extent))))"

definition pointer_xy :: "nat \<Rightarrow> pointer \<Rightarrow> (nat \<times> nat) option" where
  "pointer_xy targetSize e =
     (case (pointer_cell targetSize (rect_left e) (rect_width e) (clientX e),
            pointer_cell targetSize (rect_top e) (rect_height e) (clientY e)) of
        (Some x, Some y) \<Rightarrow>
          if 0 \<le> x \<and> x < int targetSize \<and> 0 \<le> y \<and> y < int targetSize
          then Some (nat x, nat y) else None
      | _ \<Rightarrow> None)"

definition css_chan :: "int \<Rightarrow> u8" where
  "css_chan v = word_of_int (max 0 (min 255 v))"

definition css_rgb :: "js_rgb \<Rightarrow> rgb option" where
  "css_rgb c =
     (case c of (Some r, Some g, Some b) \<Rightarrow> Some (css_chan r, css_chan g, css_chan b) | _ \<Rightarrow> None)"

text \<open>\<open>fillRect(x, y, 1, 1)\<close> with an opaque colour on a canvas \<open>targetSize\<close> wide.\<close>

definition fill_pixel :: "nat \<Rightarrow> u8 list \<Rightarrow> nat \<Rightarrow> nat \<Rightarrow> rgb \<Rightarrow> u8 list" where
  "fill_pixel targetSize data x y c =
     (case c of (r, g, b) \<Rightarrow>
        let i = 4 * (y * targetSize + x) in data[i := r, i + 1 := g, i + 2 := b, i + 3 := 255])"

definition drawPixel :: "nat \<Rightarrow> app_state \<Rightarrow> pointer \<Rightarrow> app_state" where
  "drawPixel targetSize s e =
     (if \<not> isDrawing s then s
      else case pointer_xy targetSize e of
        None \<Rightarrow> s
      | Some (x, y) \<Rightarrow>
          let s' = s\<lparr>fillStyle := (case css_rgb (currentEditorColor s) of
                                    None \<Rightarrow> fillStyle s | Some c \<Rightarrow> c)\<rparr>
          in s'\<lparr>editorData := fill_pixel targetSize (editorData s') x y (fillStyle s')\<rparr>)"

definition runGeneration :: "nat \<Rightarrow> palette \<Rightarrow> app_state \<Rightarrow> app_state option" where
  "runGeneration targetSize pal s =
     (let s1 = s\<lparr>summaryOutput := Generating, generateDisabled := True\<rparr>;
          (pixels, pixelIndices) = getPixelData (editorData s1)
      in case mapToColours targetSize pal pixels pixelIndices of
           None \<Rightarrow> None
         | Some (coreImageArray, remaining, coreColorNameMap2D) \<Rightarrow>
             let s2 = s1\<lparr>mosaicData := to_rgba targetSize coreImageArray,
                         finalColorNameMap := Some coreColorNameMap2D\<rparr>;
                 (totalUsed, summaryData) = generateSummary pal remaining
             in Some (s2\<lparr>summaryOutput := Summary totalUsed summaryData,
                         generateDisabled := False\<rparr>))"

text \<open>\<open>finalColorNameMap[y][x]\<close>: a missing row is \<open>undefined\<close>, and indexing it throws; a
  missing cell is \<open>undefined\<close>, which the template prints as such.\<close>

definition name_at :: "string list list \<Rightarrow> nat \<Rightarrow> nat \<Rightarrow> js_error + string" where
  "name_at rows x y =
     (if y < length rows
      then Inr (if x < length (rows ! y) then rows ! y ! x else ''undefined'')
      else Inl (TypeError ''Cannot read properties of undefined''))"

definition mosaic_hover :: "nat \<Rightarrow> app_state \<Rightarrow> pointer \<Rightarrow> js_error + app_state" where
  "mosaic_hover targetSize s e =
     (case finalColorNameMap s of
        None \<Rightarrow> Inr s
      | Some rows \<Rightarrow>
          (case pointer_xy targetSize e of
             None \<Rightarrow> Inr (s\<lparr>hoverText := Some []\<rparr>)
           | Some (x, y) \<Rightarrow>
               (case name_at rows x y of
                  Inl err \<Rightarrow> Inl err
                | Inr name \<Rightarrow> Inr (s\<lparr>hoverText := Some ('' Colour: '' @ name)\<rparr>))))"

text \<open>\<open>loadImage(file)\<close> (lines 88--109): disable the button and start reading the file; the
  callbacks run later, as the event \<open>ImageLoaded\<close>.\<close>

definition loadImage :: "string \<Rightarrow> app_state \<Rightarrow> app_state" where
  "loadImage file s = s\<lparr>generateDisabled := True, pendingLoads := pendingLoads s @ [file]\<rparr>"

text \<open>\<open>img.onload\<close> (lines 93--105): the resampled image is drawn onto the editor and the
  button enabled again.\<close>

definition imageOnload :: "string \<Rightarrow> u8 list \<Rightarrow> app_state \<Rightarrow> app_state" where
  "imageOnload file data s =
     s\<lparr>editorData := data, generateDisabled := False, pendingLoads := remove1 file (pendingLoads s)\<rparr>"

text \<open>The listeners of lines 273--344 on a page with the elements \<open>els\<close>. The writes to the
  file-name, colour and hover displays are guarded by \<open>if (element)\<close>; the Generate button
  is written unguarded by \<open>loadImage\<close> (line 89), \<open>img.onload\<close> (line 104) and
  \<open>runGeneration\<close> (line 201), and \<open>summaryOutput\<close> by \<open>runGeneration\<close> (line 200), which
  throw when it is missing. A handler that throws is \<open>Inl\<close>: the writes \<open>img.onload\<close> and
  \<open>runGeneration\<close> make before their throw are not kept, and neither case can occur on a
  page set up without the button, where no load starts and no click arrives.\<close>

fun app_step_dom ::
  "dom_elements \<Rightarrow> nat \<Rightarrow> palette \<Rightarrow> app_state \<Rightarrow> app_event \<Rightarrow> (js_error + app_state) option" where
  "app_step_dom els targetSize pal s (FileChange files) =
     (if files \<noteq> []
      then (if \<not> has_generateButton els then Some (Inl null_write)
            else let s' = loadImage (hd files) s in
              Some (Inr (if has_fileNameDisplay els
                         then s'\<lparr>fileNameText := Some (hd files),
                                 fileNameClasses := fileNameClasses s' @ file_chosen_classes\<rparr>
                         else s')))
      else Some (Inr (if has_fileNameDisplay els
                      then s\<lparr>fileNameText := Some ''No file chosen'',
                             fileNameClasses := fileNameClasses s @ no_file_classes\<rparr>
                      else s)))"
| "app_step_dom els targetSize pal s (ImageLoaded f data) =
     (if \<not> has_generateButton els then Some (Inl null_write) else Some (Inr (imageOnload f data s)))"
| "app_step_dom els targetSize pal s (LoadFailed f) =
     Some (Inr (s\<lparr>pendingLoads := remove1 f (pendingLoads s)\<rparr>))"
| "app_step_dom els targetSize pal s (ColourInput hex) =
     (let s' = s\<lparr>currentEditorColor := hexToRgb hex\<rparr> in
      Some (Inr (if has_colourDisplay els then s'\<lparr>currentColourText := Some hex\<rparr> else s')))"
| "app_step_dom els targetSize pal s (EditorMouseDown e) =
     Some (Inr (drawPixel targetSize (s\<lparr>isDrawing := True\<rparr>) e))"
| "app_step_dom els targetSize pal s (EditorMouseMove e) = Some (Inr (drawPixel targetSize s e))"
| "app_step_dom els targetSize pal s EditorMouseUp = Some (Inr (s\<lparr>isDrawing := False\<rparr>))"
| "app_step_dom els targetSize pal s EditorMouseLeave = Some (Inr (s\<lparr>isDrawing := False\<rparr>))"
| "app_step_dom els targetSize pal s GenerateClick =
     (if generateDisabled s then Some (Inr s)
      else if \<not> has_summaryOutput els \<or> \<not> has_generateButton els then Some (Inl null_write)
      else map_option Inr (runGeneration targetSize pal s))"
| "app_step_dom els targetSize pal s (MosaicMouseMove e) =
     Some (if has_hoverInfo els then mosaic_hover targetSize s e else Inr s)"

text \<open>The listeners a page with the elements \<open>els\<close> registers (the guards of lines 275, 297,
  307, 318 and 322); the load callbacks are the browser's.\<close>

fun dom_listener :: "dom_elements \<Rightarrow> app_event \<Rightarrow> bool" where
  "dom_listener els (FileChange files) = has_fileInput els"
| "dom_listener els (ColourInput hex) = has_colourPicker els"
| "dom_listener els (EditorMouseDown e) = has_editorCanvas els"
| "dom_listener els (EditorMouseMove e) = has_editorCanvas els"
| "dom_listener els EditorMouseUp = has_editorCanvas els"
| "dom_listener els EditorMouseLeave = has_editorCanvas els"
| "dom_listener els GenerateClick = has_generateButton els"
| "dom_listener els (MosaicMouseMove e) = has_mosaicCanvas els"
| "dom_listener els (ImageLoaded f data) = True"
| "dom_listener els (LoadFailed f) = True"

text \<open>The page the HTML file is written for: every element present.\<close>

definition app_step :: "nat \<Rightarrow> palette \<Rightarrow> app_state \<Rightarrow> app_event \<Rightarrow> (js_error + app_state) option" where
  "app_step = app_step_dom dom_full"

text \<open>Events the browser can deliver in a state: a load ends only for a file being loaded, and
  a loaded image fills the whole editor canvas.\<close>

fun event_ok :: "nat \<Rightarrow> app_state \<Rightarrow> app_event \<Rightarrow> bool" where
  "event_ok targetSize s (ImageLoaded f data) =
     (f \<in> set (pendingLoads s) \<and> length data = 4 * (targetSize * targetSize))"
| "event_ok targetSize s (LoadFailed f) = (f \<in> set (pendingLoads s))"
| "event_ok targetSize s _ = True"

fun app_run :: "nat \<Rightarrow> palette \<Rightarrow> app_state \<Rightarrow> app_event list \<Rightarrow> (js_error + app_state) option" where
  "app_run targetSize pal s [] = Some (Inr s)"
| "app_run targetSize pal s (e # es) =
     (case app_step targetSize pal s e of
        Some (Inr s') \<Rightarrow> app_run targetSize pal s' es
      | r \<Rightarrow> r)"

inductive app_reachable :: "nat \<Rightarrow> palette \<Rightarrow> bool \<Rightarrow> app_state \<Rightarrow> bool"
  for targetSize pal disabled0 where
  init: "app_reachable targetSize pal disabled0 (app_init targetSize disabled0)"
| step: "app_reachable targetSize pal disabled0 s \<Longrightarrow> event_ok targetSize s e \<Longrightarrow>
         app_step targetSize pal s e = Some (Inr s') \<Longrightarrow> app_reachable targetSize pal disabled0 s'"

text \<open>A sequence of deliverable events and the states it passes through.\<close>

inductive app_trace :: "nat \<Rightarrow> palette \<Rightarrow> app_state \<Rightarrow> app_event list \<Rightarrow> app_state \<Rightarrow> bool"
  for targetSize pal where
  Nil: "app_trace targetSize pal s [] s"
| Cons: "event_ok targetSize s e \<Longrightarrow> app_step targetSize pal s e = Some (Inr s1) \<Longrightarrow>
         app_trace targetSize pal s1 es s' \<Longrightarrow> app_trace targetSize pal s (e # es) s'"

text \<open>The content of \<open>summaryOutput\<close>: the placeholder text (line 353), the text written at
  the start of \<open>runGeneration\<close> (line 200), and the summary HTML (line 270).\<close>

definition summary_text :: "nat \<Rightarrow> summary_view \<Rightarrow> string" where
  "summary_text targetSize v =
     (case v of
        Placeholder \<Rightarrow> ''Please upload an image and click '' @ [CHR 0x27] @ ''Run Generation'' @ [CHR 0x27] @ ''.''
      | Generating \<Rightarrow> ''Generating mosaic...''
      | Summary totalUsed summaryData \<Rightarrow> summary_html totalUsed targetSize summaryData)"

definition app_inv :: "nat \<Rightarrow> palette \<Rightarrow> app_state \<Rightarrow> bool" where
  "app_inv targetSize pal s \<longleftrightarrow>
     length (editorData s) = 4 * (targetSize * targetSize) \<and>
     length (mosaicData s) = 4 * (targetSize * targetSize) \<and>
     (case finalColorNameMap s of
        None \<Rightarrow> True
      | Some rows \<Rightarrow> length rows = targetSize \<and> list_all (\<lambda>r. length r = targetSize) rows \<and>
                    list_all (\<lambda>n. n = OUT_OF_STOCK \<or> n \<in> set (map fst pal)) (concat rows))"

text \<open>The raster of the spec's worked example, as the editor canvas holds it.\<close>

definition example_raster :: "u8 list" where
  "example_raster = rgba_of [(255, 0, 0), (0, 0, 255), (250, 5, 5), (0, 0, 0)]"

text \<open>The page after the example file has loaded, and after Generate was clicked on it.\<close>

definition example_loaded :: app_state where
  "example_loaded = (app_init 2 False)\<lparr>editorData := example_raster, fileNameText := Some ''example.png'',
                                        fileNameClasses := file_chosen_classes\<rparr>"

definition example_generated :: app_state where
  "example_generated = example_loaded\<lparr>
     mosaicData := [0, 0, 255, 255, 0, 0, 0, 255, 255, 0, 0, 255, 0, 0, 0, 255],
     finalColorNameMap := Some [[''Blue'', ''Out of Stock''], [''Red'', ''Out of Stock'']],
     summaryOutput := Summary (Some 2)
        [\<lparr>row_name = ''Red'', row_used = 1, row_remaining = 0, row_original = 1\<rparr>,
         \<lparr>row_name = ''Blue'', row_used = 1, row_remaining = 0, row_original = 1\<rparr>]\<rparr>"

section \<open>Lemmas\<close>

declare loadImage_def [simp] imageOnload_def [simp]

text \<open>The listeners of the page with every element present, one equation per event.\<close>

lemma app_step_simps [simp]:
  "app_step targetSize pal s (FileChange files) =
     Some (Inr (if files \<noteq> []
                then (loadImage (hd files) s)\<lparr>fileNameText := Some (hd files),
                       fileNameClasses := fileNameClasses s @ file_chosen_classes\<rparr>
                else s\<lparr>fileNameText := Some ''No file chosen'',
                       fileNameClasses := fileNameClasses s @ no_file_classes\<rparr>))"
  "app_step targetSize pal s (ImageLoaded f data) = Some (Inr (imageOnload f data s))"
  "app_step targetSize pal s (LoadFailed f) = Some (Inr (s\<lparr>pendingLoads := remove1 f (pendingLoads s)\<rparr>))"
  "app_step targetSize pal s (ColourInput hex) =
     Some (Inr (s\<lparr>currentEditorColor := hexToRgb hex, currentColourText := Some hex\<rparr>))"
  "app_step targetSize pal s (EditorMouseDown e) = Some (Inr (drawPixel targetSize (s\<lparr>isDrawing := True\<rparr>) e))"
  "app_step targetSize pal s (EditorMouseMove e) = Some (Inr (drawPixel targetSize s e))"
  "app_step targetSize pal s EditorMouseUp = Some (Inr (s\<lparr>isDrawing := False\<rparr>))"
  "app_step targetSize pal s EditorMouseLeave = Some (Inr (s\<lparr>isDrawing := False\<rparr>))"
  "app_step targetSize pal s GenerateClick =
     (if generateDisabled s then Some (Inr s) else map_option Inr (runGeneration targetSize pal s))"
  "app_step targetSize pal s (MosaicMouseMove e) = Some (mosaic_hover targetSize s e)"
  by (simp_all add: app_step_def dom_full_def Let_def)

lemma length_fill_pixel [simp]: "length (fill_pixel targetSize data x y c) = length data"
  by (simp add: fill_pixel_def Let_def split: prod.splits)

lemma drawPixel_frame:
  "finalColorNameMap (drawPixel targetSize s e) = finalColorNameMap s \<and>
   mosaicData (drawPixel targetSize s e) = mosaicData s \<and>
   generateDisabled (drawPixel targetSize s e) = generateDisabled s \<and>
   summaryOutput (drawPixel targetSize s e) = summaryOutput s \<and>
   pendingLoads (drawPixel targetSize s e) = pendingLoads s \<and>
   length (editorData (drawPixel targetSize s e)) = length (editorData s)"
  by (simp add: drawPixel_def Let_def split: option.splits prod.splits)

lemma runGeneration_eq:
  "runGeneration targetSize pal s =
     (case mapToColours targetSize pal (fst (getPixelData (editorData s))) (snd (getPixelData (editorData s))) of
        None \<Rightarrow> None
      | Some (img, rem, rows) \<Rightarrow>
          Some (s\<lparr>summaryOutput := Summary (fst (generateSummary pal rem)) (snd (generateSummary pal rem)),
                  generateDisabled := False, mosaicData := to_rgba targetSize img,
                  finalColorNameMap := Some rows\<rparr>))"
  by (simp add: runGeneration_def split: prod.splits option.splits)

lemma runGeneration_inv_pos:
  assumes k: "0 < targetSize" and inv: "app_inv targetSize pal s"
  shows "\<exists>s'. runGeneration targetSize pal s = Some s' \<and> app_inv targetSize pal s'"
proof -
  let ?px = "fst (getPixelData (editorData s))"
  let ?st = "match_loop pal ?px (snd (getPixelData (editorData s))) (match_init pal (length ?px))"
  have len: "length ?px = targetSize * targetSize"
    using inv by (simp add: app_inv_def getPixelData_pixels length_rgba_pixels)
  have names: "list_all (\<lambda>n. n = OUT_OF_STOCK \<or> n \<in> set (map fst pal)) (coreColorNameMap ?st) \<and>
      length (coreColorNameMap ?st) = targetSize * targetSize"
    using match_loop_names [OF match_init_names [THEN conjunct1]] match_init_names len by metis
  then have rows: "length (chunks targetSize (coreColorNameMap ?st)) = targetSize \<and>
      (\<forall>r \<in> set (chunks targetSize (coreColorNameMap ?st)). length r = targetSize)"
    using chunks_rows [OF k, of "coreColorNameMap ?st" targetSize] by simp
  show ?thesis
    using inv names rows concat_chunks [OF k, of "coreColorNameMap ?st"]
    by (simp add: runGeneration_eq mapToColours_chunks [OF k] app_inv_def length_to_rgba list_all_iff)
qed

lemma runGeneration_zero:
  "app_inv 0 pal s \<Longrightarrow>
   runGeneration 0 pal s = Some (s\<lparr>summaryOutput := Summary (fst (generateSummary pal (original_counts pal)))
                                     (snd (generateSummary pal (original_counts pal))),
                                generateDisabled := False, mosaicData := [], finalColorNameMap := Some []\<rparr>)"
  by (simp add: app_inv_def runGeneration_eq getPixelData_def js_sort_def mapToColours_def match_init_def
      reshape_rows.simps flat_rgb_def to_rgba_def)

lemma runGeneration_inv:
  assumes "app_inv targetSize pal s"
  shows "\<exists>s'. runGeneration targetSize pal s = Some s' \<and> app_inv targetSize pal s'"
proof (cases "targetSize = 0")
  case True
  then show ?thesis using assms by (simp add: runGeneration_zero app_inv_def)
next
  case False
  then show ?thesis using runGeneration_inv_pos assms by blast
qed

lemma pointer_xy_bound: "pointer_xy targetSize e = Some (x, y) \<Longrightarrow> x < targetSize \<and> y < targetSize"
  by (auto simp: pointer_xy_def split: option.splits if_splits)

lemma nth_concat_rows:
  "list_all (\<lambda>r. length r = k) rows \<Longrightarrow> y < length rows \<Longrightarrow> x < k \<Longrightarrow> concat rows ! (y * k + x) = rows ! y ! x"
proof (induction rows arbitrary: y)
  case (Cons r rows)
  then show ?case by (cases y) (auto simp: nth_append add.assoc)
qed simp

lemma mosaic_hover_eq:
  assumes "app_inv targetSize pal s" and "finalColorNameMap s = Some rows"
    and "pointer_xy targetSize e = Some (x, y)"
  shows "mosaic_hover targetSize s e = Inr (s\<lparr>hoverText := Some ('' Colour: '' @ concat rows ! (y * targetSize + x))\<rparr>)"
  using assms pointer_xy_bound [OF assms(3)] nth_concat_rows [of targetSize rows y x]
  by (simp add: mosaic_hover_def app_inv_def name_at_def list_all_iff)

lemma mosaic_hover_inv:
  "app_inv targetSize pal s \<Longrightarrow> \<exists>s'. mosaic_hover targetSize s e = Inr s' \<and> app_inv targetSize pal s'"
proof (cases "finalColorNameMap s")
  case (Some rows)
  assume inv: "app_inv targetSize pal s"
  show ?thesis
  proof (cases "pointer_xy targetSize e")
    case (Some xy)
    then obtain x y where "pointer_xy targetSize e = Some (x, y)" by (cases xy) auto
    then show ?thesis using mosaic_hover_eq [OF inv \<open>finalColorNameMap s = Some rows\<close>] inv
      by (simp add: app_inv_def)
  qed (use inv Some in \<open>simp add: mosaic_hover_def app_inv_def\<close>)
qed (simp add: mosaic_hover_def)

lemma app_step_inv:
  "app_inv targetSize pal s \<Longrightarrow> event_ok targetSize s e \<Longrightarrow>
   \<exists>s'. app_step targetSize pal s e = Some (Inr s') \<and> app_inv targetSize pal s'"
proof (cases e)
  case GenerateClick
  then show "app_inv targetSize pal s \<Longrightarrow> ?thesis" by (auto dest: runGeneration_inv)
next
  case (MosaicMouseMove p)
  then show "app_inv targetSize pal s \<Longrightarrow> ?thesis" by (auto dest: mosaic_hover_inv)
qed (auto simp: app_inv_def drawPixel_frame)

lemma app_reachable_inv:
  "app_reachable targetSize pal disabled0 s \<Longrightarrow> app_inv targetSize pal s"
proof (induction rule: app_reachable.induct)
  case init
  then show ?case
    by (simp add: app_inv_def app_init_def length_rgba_of)
next
  case (step s e s')
  then show ?case using app_step_inv [of targetSize pal s e] by auto
qed

lemma rgba_pixels_fill_pixel:
  assumes "length data = 4 * (targetSize * targetSize)" and "x < targetSize" and "y < targetSize"
  shows "rgba_pixels (fill_pixel targetSize data x y c) = (rgba_pixels data)[y * targetSize + x := c]"
proof -
  have "y * targetSize + x < Suc y * targetSize" using assms(2) by simp
  also have "\<dots> \<le> targetSize * targetSize" using assms(3) by (intro mult_le_mono1) simp
  finally have "y * targetSize + x < targetSize * targetSize" .
  then show ?thesis using assms(1) rgba_pixels_update4 [of "y * targetSize + x" data]
    by (cases c) (simp add: fill_pixel_def Let_def)
qed

lemma app_step_disabled:
  "generateDisabled s \<Longrightarrow> (\<forall>f data. e \<noteq> ImageLoaded f data) \<Longrightarrow> app_step targetSize pal s e = Some (Inr s1) \<Longrightarrow>
   generateDisabled s1 \<and> mosaicData s1 = mosaicData s \<and> finalColorNameMap s1 = finalColorNameMap s \<and>
   summaryOutput s1 = summaryOutput s"
  by (cases e) (auto simp: drawPixel_frame mosaic_hover_def split: option.splits sum.splits if_splits)

lemma app_trace_reachable:
  "app_trace targetSize pal s es s' \<Longrightarrow> app_reachable targetSize pal disabled0 s \<Longrightarrow>
   app_reachable targetSize pal disabled0 s'"
  by (induction rule: app_trace.induct) (auto intro: app_reachable.step)

lemma app_trace_NilI: "s = s' \<Longrightarrow> app_trace targetSize pal s [] s'"
  by (simp add: app_trace.Nil)

lemma runGeneration_again:
  "runGeneration targetSize pal s = Some s1 \<Longrightarrow>
   runGeneration targetSize pal s1 = Some s1 \<and> \<not> generateDisabled s1"
  by (auto simp: runGeneration_eq split: option.splits)

lemma remove1_snoc_pending: "x \<in> set (remove1 y (xs @ [x, y]))"
  by (induction xs) auto

end
