(* ===== verification/App_Props.thy ===== *)
theory App_Props
  imports App
begin

text \<open>
  Properties of the page model of \<open>App\<close>: that its handlers always return, what its
  invariant gives (canvas sizes, the name map), what hover and drawing address, how the
  Generate button behaves around image loads, and that Generate is deterministic. The spec's
  worked example is run through the page; the witnesses use it.
\<close>

section \<open>The worked example of the spec, through the page\<close>

lemma example_select:
  "app_step 2 example_palette (app_init 2 False) (FileChange [''example.png'']) =
     Some (Inr ((app_init 2 False)\<lparr>generateDisabled := True, pendingLoads := [''example.png''],
                                   fileNameText := Some ''example.png'',
                                   fileNameClasses := file_chosen_classes\<rparr>))"
  by (simp add: app_init_def)

lemma example_load:
  "app_step 2 example_palette ((app_init 2 False)\<lparr>generateDisabled := True, pendingLoads := [''example.png''],
                                   fileNameText := Some ''example.png'',
                                   fileNameClasses := file_chosen_classes\<rparr>)
     (ImageLoaded ''example.png'' example_raster) = Some (Inr example_loaded)"
  by (simp add: app_init_def example_loaded_def)

lemma example_generate:
  "app_step 2 example_palette example_loaded GenerateClick = Some (Inr example_generated)"
  by (simp add: app_init_def example_loaded_def example_generated_def example_raster_def runGeneration_def
      getPixelData_def js_sort_def importance_cmp_def
      importance_def chan_def rgba_of_def mapToColours_def example_palette_def match_init_def OUT_OF_STOCK_def
      visit_pixel_def original_counts_def rgb_values_def from_entries_def obj_set_def obj_get_def in_stock_def
      rgb_dist_sq_def flat_rgb_def reshape_rows.simps to_rgba_closed rgba_px_def u8_at_def generateSummary_def
      upt_rec)

lemma example_loaded_trace:
  "app_trace 2 example_palette (app_init 2 False)
     [FileChange [''example.png''], ImageLoaded ''example.png'' example_raster] example_loaded"
  by (intro app_trace.Cons [OF _ example_select] app_trace.Cons [OF _ example_load] app_trace.Nil)
     (simp_all add: example_raster_def rgba_of_def)

lemma example_loaded_reachable: "app_reachable 2 example_palette False example_loaded"
  by (rule app_trace_reachable [OF example_loaded_trace app_reachable.init])

lemma example_reachable: "app_reachable 2 example_palette False example_generated"
  by (rule app_reachable.step [OF example_loaded_reachable _ example_generate]) simp

lemma example_generated_fields:
  "finalColorNameMap example_generated = Some [[''Blue'', ''Out of Stock''], [''Red'', ''Out of Stock'']] \<and>
   mosaicData example_generated = [0, 0, 255, 255, 0, 0, 0, 255, 255, 0, 0, 255, 0, 0, 0, 255] \<and>
   \<not> generateDisabled example_generated \<and> \<not> generateDisabled example_loaded"
  by (simp add: example_generated_def example_loaded_def app_init_def)

text \<open>A file that fails to decode: the button is disabled and nothing is left loading.\<close>

lemma example_failed_trace:
  "app_trace 2 example_palette (app_init 2 False) [FileChange [''bad.png''], LoadFailed ''bad.png'']
     ((app_init 2 False)\<lparr>generateDisabled := True, fileNameText := Some ''bad.png'', fileNameClasses := file_chosen_classes\<rparr>)"
  apply (rule app_trace.Cons, simp, simp)+
  apply (rule app_trace_NilI)
  apply (simp add: app_init_def)
  done

section \<open>Properties of the page\<close>

text \<open>C7: in every reachable state every handler returns normally: no event makes the page
  loop forever or throw, whatever the canvas size.\<close>

theorem app_reachable_returns:
  assumes "app_reachable targetSize pal disabled0 s"
  shows "\<exists>s'. app_step targetSize pal s e = Some (Inr s')"
proof -
  have inv: "app_inv targetSize pal s" by (rule app_reachable_inv [OF assms])
  show ?thesis
  proof (cases "event_ok targetSize s e")
    case True
    then show ?thesis using app_step_inv [OF inv True] by blast
  next
    case False
    then show ?thesis by (cases e) auto
  qed
qed


text \<open>C17: once a mosaic exists, \<open>finalColorNameMap\<close> is a \<open>TARGET_SIZE\<close> square of
  names, each a palette name or \<open>Out of Stock\<close>.\<close>

theorem app_reachable_names:
  assumes "app_reachable targetSize pal disabled0 s" and "finalColorNameMap s = Some rows"
  shows "length rows = targetSize \<and> (\<forall>r \<in> set rows. length r = targetSize) \<and>
         set (concat rows) \<subseteq> insert OUT_OF_STOCK (fst ` set pal)"
  using app_reachable_inv [OF assms(1)] assms(2)
  by (auto simp: app_inv_def list_all_iff)

text \<open>C18: hovering over cell \<open>(x, y)\<close> of the mosaic shows the name of pixel
  \<open>y * TARGET_SIZE + x\<close>, the row-major index the matcher assigned.\<close>

theorem hover_reports_name:
  assumes "app_reachable targetSize pal disabled0 s" and "finalColorNameMap s = Some rows"
    and "pointer_xy targetSize e = Some (x, y)"
  shows "app_step targetSize pal s (MosaicMouseMove e) =
           Some (Inr (s\<lparr>hoverText := Some ('' Colour: '' @ concat rows ! (y * targetSize + x))\<rparr>))"
  using mosaic_hover_eq [OF app_reachable_inv [OF assms(1)] assms(2,3)] by simp

text \<open>C19: while drawing, a pointer over cell \<open>(x, y)\<close> paints pixel
  \<open>y * TARGET_SIZE + x\<close> of the editor in the current colour, the pixel \<open>getPixelData\<close> reads
  there, and leaves every other pixel as it was.\<close>


theorem drawPixel_paints:
  assumes "isDrawing s" and "length (editorData s) = 4 * (targetSize * targetSize)"
    and "pointer_xy targetSize e = Some (x, y)" and "css_rgb (currentEditorColor s) = Some c"
  shows "rgba_pixels (editorData (drawPixel targetSize s e)) = (rgba_pixels (editorData s))[y * targetSize + x := c]
         \<and> fillStyle (drawPixel targetSize s e) = c"
  using assms pointer_xy_bound [OF assms(3)]
  by (simp add: drawPixel_def rgba_pixels_fill_pixel)

text \<open>C34: when \<open>hexToRgb\<close> gave \<open>NaN\<close> for a channel, the \<open>fillStyle\<close> assignment is
  ignored and the pixel is painted in the previous fill colour, not in the picked one.\<close>

theorem drawPixel_stale_fill:
  assumes "isDrawing s" and "length (editorData s) = 4 * (targetSize * targetSize)"
    and "pointer_xy targetSize e = Some (x, y)" and "css_rgb (currentEditorColor s) = None"
  shows "rgba_pixels (editorData (drawPixel targetSize s e)) = (rgba_pixels (editorData s))[y * targetSize + x := fillStyle s]"
  using assms pointer_xy_bound [OF assms(3)]
  by (simp add: drawPixel_def rgba_pixels_fill_pixel)

text \<open>C33: while the button is disabled and no image has finished loading, no event
  sequence changes the mosaic, the name map or the summary, and the button stays disabled.\<close>

theorem app_run_disabled:
  "generateDisabled s \<Longrightarrow> (\<forall>f data. ImageLoaded f data \<notin> set es) \<Longrightarrow> app_run targetSize pal s es = Some (Inr s') \<Longrightarrow>
   generateDisabled s' \<and> mosaicData s' = mosaicData s \<and> finalColorNameMap s' = finalColorNameMap s \<and>
   summaryOutput s' = summaryOutput s"
proof (induction es arbitrary: s)
  case (Cons e es)
  show ?case
  proof (cases "app_step targetSize pal s e")
    case (Some r)
    show ?thesis
    proof (cases r)
      case (Inr s1)
      have "generateDisabled s1 \<and> mosaicData s1 = mosaicData s \<and>
            finalColorNameMap s1 = finalColorNameMap s \<and> summaryOutput s1 = summaryOutput s"
        using app_step_disabled [OF Cons.prems(1) _ Some [unfolded Inr]] Cons.prems(2) by auto
      then show ?thesis using Cons.IH [of s1] Cons.prems Some Inr by auto
    qed (use Cons.prems Some in auto)
  qed (use Cons.prems in auto)
qed simp

text \<open>C26: two files chosen one after the other load concurrently, and the one whose
  decoding finishes last is drawn: the editor can show the first file's image while the file
  name shown is the second's.\<close>

theorem load_race:
  assumes "length A = 4 * (targetSize * targetSize)" and "length B = 4 * (targetSize * targetSize)"
  shows "\<exists>s'. app_trace targetSize pal s [FileChange [fa], FileChange [fb], ImageLoaded fb B, ImageLoaded fa A] s' \<and>
              fileNameText s' = Some fb \<and> editorData s' = A \<and> \<not> generateDisabled s'"
proof -
  let ?s1 = "s\<lparr>generateDisabled := True, pendingLoads := pendingLoads s @ [fa], fileNameText := Some fa,
                  fileNameClasses := fileNameClasses s @ file_chosen_classes\<rparr>"
  let ?s2 = "?s1\<lparr>generateDisabled := True, pendingLoads := pendingLoads ?s1 @ [fb], fileNameText := Some fb,
                  fileNameClasses := fileNameClasses ?s1 @ file_chosen_classes\<rparr>"
  let ?s3 = "?s2\<lparr>editorData := B, generateDisabled := False, pendingLoads := remove1 fb (pendingLoads ?s2)\<rparr>"
  let ?s4 = "?s3\<lparr>editorData := A, generateDisabled := False, pendingLoads := remove1 fa (pendingLoads ?s3)\<rparr>"
  have "app_trace targetSize pal s [FileChange [fa], FileChange [fb], ImageLoaded fb B, ImageLoaded fa A] ?s4"
    using assms remove1_snoc_pending [of fa fb "pendingLoads s"]
    apply -
    apply (rule app_trace.Cons, simp, simp)+
    apply (rule app_trace_NilI)
    apply simp
    done
  then show ?thesis by auto
qed

text \<open>C25: once the button is disabled with no load in flight, as after a file that fails
  to decode (the script has no \<open>onerror\<close> handler), no sequence of events short of choosing
  another file enables it again or changes the mosaic or the summary.\<close>

theorem failed_load_stuck:
  assumes "app_trace targetSize pal s es s'" and "generateDisabled s" and "pendingLoads s = []"
    and "\<forall>fs. FileChange fs \<notin> set es"
  shows "generateDisabled s' \<and> pendingLoads s' = [] \<and> mosaicData s' = mosaicData s \<and>
         finalColorNameMap s' = finalColorNameMap s \<and> summaryOutput s' = summaryOutput s"
  using assms
proof (induction rule: app_trace.induct)
  case (Cons s e s1 es s')
  have "(\<forall>f data. e \<noteq> ImageLoaded f data) \<and> pendingLoads s1 = []"
    using Cons.hyps(1,2) Cons.prems
    by (cases e) (auto simp: drawPixel_frame mosaic_hover_def split: option.splits sum.splits)
  then show ?case
    using app_step_disabled [OF Cons.prems(1) _ Cons.hyps(2)] Cons.IH Cons.prems by auto
qed simp

text \<open>C14: Generate is deterministic: the stock is copied afresh from
  \<open>ORIGINAL_COUNTS\<close> on every run, so clicking it again right after a run gives the same page.\<close>

theorem generate_idempotent:
  assumes "\<not> generateDisabled s" and "app_step targetSize pal s GenerateClick = Some (Inr s1)"
  shows "app_step targetSize pal s1 GenerateClick = Some (Inr s1)"
proof -
  have "runGeneration targetSize pal s = Some s1" using assms by auto
  then show ?thesis using runGeneration_again by simp
qed

section \<open>Witnesses\<close>

lemma app_reachable_returns_witness:
  "\<exists>s'. app_step 2 example_palette (app_init 2 False) GenerateClick = Some (Inr s')"
  using app_reachable_returns [OF app_reachable.init [of 2 example_palette False], of GenerateClick] .


lemma app_reachable_names_witness:
  "set (concat [[''Blue'', ''Out of Stock''], [''Red'', ''Out of Stock'']]) \<subseteq>
     insert OUT_OF_STOCK (fst ` set example_palette)"
  using app_reachable_names [OF example_reachable example_generated_fields [THEN conjunct1]] by simp

lemma hover_reports_name_witness:
  "app_step 2 example_palette example_generated (MosaicMouseMove \<lparr>clientX = 30, clientY = 3, rect_left = 20, rect_top = 0, rect_width = 20, rect_height = 20\<rparr>) =
     Some (Inr (example_generated\<lparr>hoverText := Some '' Colour: Out of Stock''\<rparr>))"
proof -
  have "pointer_xy 2 \<lparr>clientX = 30, clientY = 3, rect_left = 20, rect_top = 0, rect_width = 20, rect_height = 20\<rparr> = Some (1, 0)"
    by (simp add: pointer_xy_def pointer_cell_def)
  from hover_reports_name [OF example_reachable example_generated_fields [THEN conjunct1] this]
  show ?thesis by simp
qed

lemma drawPixel_paints_witness:
  "rgba_pixels (editorData (drawPixel 2 ((app_init 2 False)\<lparr>isDrawing := True\<rparr>) \<lparr>clientX = 10, clientY = 3, rect_left = 0, rect_top = 0, rect_width = 20, rect_height = 20\<rparr>)) =
     [placeholder_grey, (0, 0, 255), placeholder_grey, placeholder_grey]"
proof -
  have p: "pointer_xy 2 \<lparr>clientX = 10, clientY = 3, rect_left = 0, rect_top = 0, rect_width = 20, rect_height = 20\<rparr> = Some (1, 0)"
    by (simp add: pointer_xy_def pointer_cell_def)
  have "rgba_pixels (editorData (drawPixel 2 ((app_init 2 False)\<lparr>isDrawing := True\<rparr>) \<lparr>clientX = 10, clientY = 3, rect_left = 0, rect_top = 0, rect_width = 20, rect_height = 20\<rparr>)) =
      (rgba_pixels (editorData ((app_init 2 False)\<lparr>isDrawing := True\<rparr>)))[0 * 2 + 1 := (0, 0, 255)]"
    using drawPixel_paints [OF _ _ p] by (simp add: app_init_def length_rgba_of css_rgb_def css_chan_def)
  then show ?thesis by (simp add: app_init_def rgba_of_def placeholder_grey_def numeral_eq_Suc)
qed

lemma drawPixel_stale_fill_witness:
  "rgba_pixels (editorData (drawPixel 2 ((app_init 2 False)\<lparr>isDrawing := True, currentEditorColor := hexToRgb ''#zz0000''\<rparr>) \<lparr>clientX = 10, clientY = 3, rect_left = 0, rect_top = 0, rect_width = 20, rect_height = 20\<rparr>)) =
     [placeholder_grey, placeholder_grey, placeholder_grey, placeholder_grey]"
proof -
  have p: "pointer_xy 2 \<lparr>clientX = 10, clientY = 3, rect_left = 0, rect_top = 0, rect_width = 20, rect_height = 20\<rparr> = Some (1, 0)"
    by (simp add: pointer_xy_def pointer_cell_def)
  have "rgba_pixels (editorData (drawPixel 2 ((app_init 2 False)\<lparr>isDrawing := True, currentEditorColor := hexToRgb ''#zz0000''\<rparr>) \<lparr>clientX = 10, clientY = 3, rect_left = 0, rect_top = 0, rect_width = 20, rect_height = 20\<rparr>)) =
      (rgba_pixels (editorData (app_init 2 False)))[0 * 2 + 1 := fillStyle (app_init 2 False)]"
    using drawPixel_stale_fill [OF _ _ p] by (simp add: app_init_def length_rgba_of css_rgb_def hexToRgb_def parseInt_0x_def)
  then show ?thesis by (simp add: app_init_def rgba_of_def placeholder_grey_def numeral_eq_Suc)
qed

lemma app_run_disabled_witness:
  "generateDisabled ((app_init 2 True)\<lparr>pendingLoads := [''a.png''], fileNameText := Some ''a.png'', fileNameClasses := file_chosen_classes\<rparr>) \<and>
   summaryOutput ((app_init 2 True)\<lparr>pendingLoads := [''a.png''], fileNameText := Some ''a.png'', fileNameClasses := file_chosen_classes\<rparr>) = Placeholder"
  using app_run_disabled [of "app_init 2 True" "[FileChange [''a.png''], GenerateClick]" 2 example_palette
      "(app_init 2 True)\<lparr>pendingLoads := [''a.png''], fileNameText := Some ''a.png'', fileNameClasses := file_chosen_classes\<rparr>"]
  by (simp add: app_init_def)

lemma load_race_witness:
  "\<exists>s'. app_trace 2 example_palette (app_init 2 False)
     [FileChange [''a.png''], FileChange [''b.png''], ImageLoaded ''b.png'' (replicate 16 0),
      ImageLoaded ''a.png'' example_raster] s' \<and>
     fileNameText s' = Some ''b.png'' \<and> editorData s' = example_raster \<and> \<not> generateDisabled s'"
  by (rule load_race) (simp_all add: example_raster_def rgba_of_def)

lemma failed_load_stuck_witness:
  "generateDisabled ((app_init 2 False)\<lparr>generateDisabled := True, fileNameText := Some ''bad.png'', fileNameClasses := file_chosen_classes\<rparr>) \<and>
   summaryOutput ((app_init 2 False)\<lparr>generateDisabled := True, fileNameText := Some ''bad.png'', fileNameClasses := file_chosen_classes\<rparr>) = Placeholder"
proof -
  let ?s = "(app_init 2 False)\<lparr>generateDisabled := True, fileNameText := Some ''bad.png'', fileNameClasses := file_chosen_classes\<rparr>"
  have t: "app_trace 2 example_palette ?s [GenerateClick, EditorMouseUp] (?s\<lparr>isDrawing := False\<rparr>)"
    apply (rule app_trace.Cons, simp, simp)+
    apply (rule app_trace_NilI)
    apply simp
    done
  from failed_load_stuck [OF t] show ?thesis by (simp add: app_init_def)
qed

lemma generate_idempotent_witness:
  "app_step 2 example_palette example_generated GenerateClick = Some (Inr example_generated)"
  using generate_idempotent [OF _ example_generate] example_generated_fields by simp

end
