(* ===== verification/Page_Dom.thy ===== *)
theory Page_Dom
  imports App_Props
begin

text \<open>
  The page with some of its elements missing (\<open>App.dom_elements\<close>): what the set-up code
  does then, what the unguarded uses of the Generate button do, and that the three optional
  displays (file name, current colour, hover text) are write-only: a page without them goes
  through the same canvases, name map, summary, button and loads as the full page.
\<close>

section \<open>Definitions\<close>

text \<open>The state without the contents of the optional displays.\<close>

definition core_part :: "app_state \<Rightarrow> app_state" where
  "core_part s = s\<lparr>currentColourText := None, hoverText := None, fileNameText := None,
                   fileNameClasses := []\<rparr>"

text \<open>A sequence of events the page with elements \<open>els\<close> can receive: each has a listener
  and can be delivered in its state. A listener that throws leaves the state as it was, as the
  browser goes on with the next event; on such a page every throw comes before the handler's
  first write (line 89 of \<open>loadImage\<close>, line 200 of \<open>runGeneration\<close>, the read of
  \<open>finalColorNameMap[y][x]\<close>), as \<open>Inl\<close> of \<open>app_step_dom\<close> keeps no state.\<close>

inductive dom_trace :: "dom_elements \<Rightarrow> nat \<Rightarrow> palette \<Rightarrow> app_state \<Rightarrow> app_event list \<Rightarrow> app_state \<Rightarrow> bool"
  for els targetSize pal where
  Nil: "dom_trace els targetSize pal s [] s"
| Step: "dom_listener els e \<Longrightarrow> event_ok targetSize s e \<Longrightarrow>
         app_step_dom els targetSize pal s e = Some (Inr s1) \<Longrightarrow>
         dom_trace els targetSize pal s1 es s' \<Longrightarrow> dom_trace els targetSize pal s (e # es) s'"
| Throw: "dom_listener els e \<Longrightarrow> event_ok targetSize s e \<Longrightarrow>
          app_step_dom els targetSize pal s e = Some (Inl err) \<Longrightarrow>
          dom_trace els targetSize pal s es s' \<Longrightarrow> dom_trace els targetSize pal s (e # es) s'"

text \<open>The page of the HTML file without the three optional displays.\<close>

definition dom_bare :: dom_elements where
  "dom_bare = dom_full\<lparr>has_colourDisplay := False, has_hoverInfo := False, has_fileNameDisplay := False\<rparr>"

section \<open>Lemmas\<close>

lemma core_part_idem [simp]: "core_part (core_part s) = core_part s"
  by (simp add: core_part_def)

lemma core_part_displays [simp]:
  "core_part (s\<lparr>hoverText := h\<rparr>) = core_part s"
  "core_part (s\<lparr>currentColourText := c\<rparr>) = core_part s"
  "core_part (s\<lparr>fileNameText := n, fileNameClasses := cs\<rparr>) = core_part s"
  by (simp_all add: core_part_def)

lemma app_inv_core_part: "app_inv targetSize pal (core_part s) = app_inv targetSize pal s"
  by (simp add: app_inv_def core_part_def)

lemma drawPixel_core_part: "core_part (drawPixel targetSize s e) = drawPixel targetSize (core_part s) e"
  by (simp add: drawPixel_def core_part_def Let_def split: option.splits prod.splits)

lemma runGeneration_core_part:
  "map_option core_part (runGeneration targetSize pal s) = runGeneration targetSize pal (core_part s)"
  by (simp add: runGeneration_eq core_part_def split: option.splits prod.splits)

lemma mosaic_hover_core_part:
  "map_sum id core_part (mosaic_hover targetSize s e) =
   map_sum id core_part (mosaic_hover targetSize (core_part s) e)"
  by (simp add: mosaic_hover_def core_part_def split: option.splits sum.splits prod.splits)

lemma core_part_isDrawing [simp]: "core_part (s\<lparr>isDrawing := b\<rparr>) = (core_part s)\<lparr>isDrawing := b\<rparr>"
  by (simp add: core_part_def)

lemma mosaic_hover_Inr_core: "mosaic_hover targetSize s e = Inr s' \<Longrightarrow> core_part s' = core_part s"
  by (auto simp: mosaic_hover_def split: option.splits sum.splits prod.splits)

lemma map_core_Some_Inr:
  "map_option (map_sum id core_part) r = Some (Inr x) \<longleftrightarrow> (\<exists>t. r = Some (Inr t) \<and> core_part t = x)"
proof (cases r)
  case (Some z)
  then show ?thesis by (cases z) auto
qed simp

lemma event_ok_core_part:
  assumes "core_part t = core_part s"
  shows "event_ok targetSize t e = event_ok targetSize s e"
proof -
  have "pendingLoads (core_part t) = pendingLoads (core_part s)" using assms by simp
  then have "pendingLoads t = pendingLoads s" by (simp add: core_part_def)
  then show ?thesis by (cases e) simp_all
qed

lemma drawPixel_fileNameText [simp]: "fileNameText (drawPixel targetSize s e) = fileNameText s"
  by (simp add: drawPixel_def Let_def split: option.splits prod.splits)

lemma map_core_Inr: "map_option (map_sum id core_part) (map_option Inr r) = map_option Inr (map_option core_part r)"
  by (cases r) simp_all

text \<open>The full page's handlers read no display: their outcome, displays erased, depends only on
  the state with its displays erased.\<close>

lemma app_step_core_part:
  "map_option (map_sum id core_part) (app_step targetSize pal s e) =
   map_option (map_sum id core_part) (app_step targetSize pal (core_part s) e)"
proof (cases e)
  case GenerateClick
  have "generateDisabled (core_part s) = generateDisabled s" by (simp add: core_part_def)
  then show ?thesis using GenerateClick
    by (simp add: map_core_Inr runGeneration_core_part)
next
  case (MosaicMouseMove p)
  then show ?thesis by (simp add: mosaic_hover_core_part [of targetSize s p])
next
  case (EditorMouseDown p)
  then show ?thesis by (simp add: drawPixel_core_part)
next
  case (EditorMouseMove p)
  then show ?thesis by (simp add: drawPixel_core_part)
qed (simp_all add: core_part_def)

text \<open>With the button and the summary element present, a page's handlers on a state of the
  invariant agree with the full page's, displays erased.\<close>

lemma app_step_dom_core_part:
  assumes "has_generateButton els" and "has_summaryOutput els" and "app_inv targetSize pal s"
  shows "map_option (map_sum id core_part) (app_step_dom els targetSize pal s e) =
         map_option (map_sum id core_part) (app_step targetSize pal s e)"
proof (cases e)
  case (MosaicMouseMove p)
  obtain s' where "mosaic_hover targetSize s p = Inr s'"
    using mosaic_hover_inv [OF assms(3)] by blast
  then show ?thesis using MosaicMouseMove mosaic_hover_Inr_core [of targetSize s p s']
    by simp
qed (use assms in \<open>simp_all add: app_step_def dom_full_def Let_def core_part_def\<close>)

lemma dom_trace_core_step:
  assumes "has_generateButton els" and "has_summaryOutput els" and "app_inv targetSize pal s"
    and "core_part t = core_part s" and "app_step targetSize pal s e = Some (Inr s1)"
  shows "\<exists>t1. app_step_dom els targetSize pal t e = Some (Inr t1) \<and> core_part t1 = core_part s1"
proof -
  have inv: "app_inv targetSize pal t"
    using assms(3,4) app_inv_core_part by metis
  have "map_option (map_sum id core_part) (app_step_dom els targetSize pal t e) =
        map_option (map_sum id core_part) (app_step targetSize pal (core_part t) e)"
    using app_step_dom_core_part [OF assms(1,2) inv] app_step_core_part by metis
  also have "\<dots> = Some (Inr (core_part s1))"
    using app_step_core_part [of targetSize pal s e] assms(4,5) by simp
  finally show ?thesis by (simp only: map_core_Some_Inr)
qed

text \<open>On a page without the Generate button, a state with no load in flight and no mosaic
  keeps both: a file choice throws in \<open>loadImage\<close> before it starts a load.\<close>

lemma no_button_step:
  assumes "\<not> has_generateButton els" and "dom_listener els e" and "event_ok targetSize s e"
    and "app_step_dom els targetSize pal s e = Some (Inr s1)"
    and "pendingLoads s = []" and "finalColorNameMap s = None"
    and "fileNameText s \<in> {None, Some ''No file chosen''}"
  shows "pendingLoads s1 = [] \<and> finalColorNameMap s1 = None \<and> mosaicData s1 = mosaicData s \<and>
         summaryOutput s1 = summaryOutput s \<and> fileNameText s1 \<in> {None, Some ''No file chosen''}"
  using assms
  by (cases e) (auto simp: drawPixel_frame mosaic_hover_def Let_def split: if_splits)

section \<open>Properties\<close>


text \<open>C28: on a page set up without the Generate button, every file choice throws in
  \<open>loadImage\<close> (line 89), so along every sequence of events no image is ever loading, the
  file name is never shown, and the mosaic, the name map and the summary stay as set up.\<close>

theorem no_button_no_load:
  assumes "page_setup els targetSize disabled0 = Inr s" and "\<not> has_generateButton els"
    and "dom_trace els targetSize pal s es s'"
  shows "pendingLoads s' = [] \<and> finalColorNameMap s' = None \<and> mosaicData s' = mosaicData s \<and>
         summaryOutput s' = Placeholder \<and> fileNameText s' \<in> {None, Some ''No file chosen''}"
proof -
  have "pendingLoads s = [] \<and> finalColorNameMap s = None \<and> summaryOutput s = Placeholder \<and>
        fileNameText s \<in> {None, Some ''No file chosen''}"
    using assms(1) by (auto simp add: page_setup_def app_init_def split: if_splits)
  with assms(3) show ?thesis
  proof (induction rule: dom_trace.induct)
    case (Step s e s1 es s')
    then show ?case using no_button_step [OF assms(2) Step.hyps(1,2,3)] by auto
  qed simp_all
qed

text \<open>C27: the file-name, colour and hover displays are write-only. On a page with the
  Generate button and the summary element, every sequence of events the full page can receive
  from a state of its invariant is received by the page, whichever optional displays it lacks,
  from any state that differs only in those displays, and the two end in states that again
  differ only there: the canvases, the name map, the summary, the button and the loads agree.\<close>

theorem optional_displays_refine:
  assumes "app_trace targetSize pal s es s'" and "app_inv targetSize pal s"
    and "has_generateButton els" and "has_summaryOutput els" and "\<forall>e \<in> set es. dom_listener els e"
    and "core_part t = core_part s"
  shows "\<exists>t'. dom_trace els targetSize pal t es t' \<and> core_part t' = core_part s'"
  using assms(1,2,5,6)
proof (induction arbitrary: t rule: app_trace.induct)
  case (Nil s)
  then show ?case by (auto intro: dom_trace.Nil)
next
  case (Cons s e s1 es s')
  obtain t1 where t1: "app_step_dom els targetSize pal t e = Some (Inr t1)" "core_part t1 = core_part s1"
    using dom_trace_core_step [OF assms(3,4) Cons.prems(1,3) Cons.hyps(2)] by blast
  have inv1: "app_inv targetSize pal s1"
    using app_step_inv [OF Cons.prems(1) Cons.hyps(1)] Cons.hyps(2) by auto
  have ok: "event_ok targetSize t e"
    using Cons.hyps(1) event_ok_core_part [OF Cons.prems(3)] by simp
  obtain t' where "dom_trace els targetSize pal t1 es t'" "core_part t' = core_part s'"
    using Cons.IH [OF inv1 _ t1(2)] Cons.prems(2) by auto
  then show ?case using dom_trace.Step [OF _ ok t1(1)] Cons.prems(2) by auto
qed

section \<open>Witnesses\<close>


lemma no_button_no_load_witness:
  "fileNameText ((app_init 2 False)\<lparr>fileNameText := Some ''No file chosen'', fileNameClasses := no_file_classes\<rparr>)
     \<in> {None, Some ''No file chosen''} \<and>
   pendingLoads ((app_init 2 False)\<lparr>fileNameText := Some ''No file chosen'', fileNameClasses := no_file_classes\<rparr>) = []"
proof -
  let ?els = "dom_full\<lparr>has_generateButton := False\<rparr>"
  let ?sN = "(app_init 2 False)\<lparr>fileNameText := Some ''No file chosen'', fileNameClasses := no_file_classes\<rparr>"
  have ps: "page_setup ?els 2 False = Inr (app_init 2 False)"
    by (simp add: page_setup_def dom_full_def)
  have t: "dom_trace ?els 2 example_palette (app_init 2 False)
             [FileChange [''a.png''], EditorMouseUp, FileChange []] ?sN"
    apply (rule dom_trace.Throw, simp add: dom_full_def, simp, simp add: dom_full_def)
    apply (rule dom_trace.Step, simp add: dom_full_def, simp, simp)
    apply (rule dom_trace.Step, simp add: dom_full_def, simp, simp add: dom_full_def)
    apply (simp add: app_init_def dom_trace.Nil)
    done
  show ?thesis
    using no_button_no_load [OF ps _ t] by (simp add: dom_full_def)
qed

lemma optional_displays_refine_witness:
  "\<exists>t'. dom_trace dom_bare 2 example_palette (app_init 2 False)
          [FileChange [''example.png''], ImageLoaded ''example.png'' example_raster] t' \<and>
        core_part t' = core_part example_loaded"
proof -
  have "app_inv 2 example_palette (app_init 2 False)"
    by (simp add: app_inv_def app_init_def length_rgba_of)
  then show ?thesis
    using optional_displays_refine [OF example_loaded_trace] by (simp add: dom_bare_def dom_full_def)
qed

end
